theory Spec2Isabelle
  imports Main "HOL-Library.Sublist" "HOL-Library.List_Lexorder"
begin

section \<open>Python strings\<close>

text \<open>
  A Python \<open>str\<close> is a sequence of Unicode code points, so a string is a list of natural
  numbers here and \<open>length\<close> counts what \<open>len\<close> counts. \<open>asc\<close> embeds an ASCII literal.
\<close>

type_synonym ustr = "nat list"

definition asc :: "string \<Rightarrow> ustr" where
  "asc s = map of_char s"

text \<open>
  \<open>str.isspace\<close> on one character, which is what \<open>str.strip()\<close> without arguments
  tests: the code points CPython lists as whitespace.
\<close>

definition py_isspace :: "nat \<Rightarrow> bool" where
  "py_isspace c \<longleftrightarrow>
     (9 \<le> c \<and> c \<le> 13) \<or> (28 \<le> c \<and> c \<le> 32) \<or> c = 133 \<or> c = 160 \<or> c = 5760 \<or>
     (8192 \<le> c \<and> c \<le> 8202) \<or> c = 8232 \<or> c = 8233 \<or> c = 8239 \<or> c = 8287 \<or> c = 12288"

definition lstrip_by :: "(nat \<Rightarrow> bool) \<Rightarrow> ustr \<Rightarrow> ustr" where
  "lstrip_by p s = dropWhile p s"

definition rstrip_by :: "(nat \<Rightarrow> bool) \<Rightarrow> ustr \<Rightarrow> ustr" where
  "rstrip_by p s = rev (dropWhile p (rev s))"

definition strip_by :: "(nat \<Rightarrow> bool) \<Rightarrow> ustr \<Rightarrow> ustr" where
  "strip_by p s = rstrip_by p (lstrip_by p s)"

text \<open>\<open>s.strip()\<close>, \<open>s.rstrip()\<close> and \<open>s.strip(chars)\<close>.\<close>

definition py_strip :: "ustr \<Rightarrow> ustr" where
  "py_strip s = strip_by py_isspace s"

definition py_rstrip :: "ustr \<Rightarrow> ustr" where
  "py_rstrip s = rstrip_by py_isspace s"

definition py_strip_chars :: "ustr \<Rightarrow> ustr \<Rightarrow> ustr" where
  "py_strip_chars chars s = strip_by (\<lambda>c. c \<in> set chars) s"

text \<open>The slice \<open>s[:m]\<close>: a negative bound counts from the end.\<close>

definition py_slice_to :: "int \<Rightarrow> ustr \<Rightarrow> ustr" where
  "py_slice_to m s = (if 0 \<le> m then take (nat m) s else take (length s - nat (- m)) s)"

section \<open>Exceptions\<close>

text \<open>The exceptions the modelled code raises or catches. A raise is the \<open>Inl\<close> of a sum.\<close>

datatype py_error = ValueError | TypeError | AttributeError | IOError | OverflowError
  | IndexError | ZeroDivisionError | Re_error

section \<open>File name sanitising\<close>

text \<open>
  \<^verbatim>\<open>ILLEGAL_FILENAME_CHARS = r'[\/:*?"<>|]'\<close>: inside the character class the
  regular expression \<^verbatim>\<open>\/\<close> is an escaped slash, so the class holds
  \<^verbatim>\<open>/ : * ? " < > |\<close> (code points 47, 58, 42, 63, 34, 60, 62, 124) and not the
  backslash (92).
\<close>

definition ILLEGAL_FILENAME_CHARS :: "nat \<Rightarrow> bool" where
  "ILLEGAL_FILENAME_CHARS c \<longleftrightarrow> c \<in> {47, 58, 42, 63, 34, 60, 62, 124}"

text \<open>\<^verbatim>\<open>ILLEGAL_CONTROL_CHARS = r'[\x00-\x1f\x7f]'\<close>\<close>

definition ILLEGAL_CONTROL_CHARS :: "nat \<Rightarrow> bool" where
  "ILLEGAL_CONTROL_CHARS c \<longleftrightarrow> c \<le> 31 \<or> c = 127"

text \<open>
  \<open>re.sub(class, repl, s)\<close> for a class of single characters, once the library has
  read the replacement template: \<open>repl c\<close> is the text the template gives for the
  match \<open>c\<close>, and every matching character is replaced by it.
\<close>

definition re_sub_class :: "(nat \<Rightarrow> bool) \<Rightarrow> (nat \<Rightarrow> ustr) \<Rightarrow> ustr \<Rightarrow> ustr" where
  "re_sub_class cls repl s = concat (map (\<lambda>c. if cls c then repl c else [c]) s)"

definition unnamed :: ustr where
  "unnamed = asc ''unnamed''"

text \<open>
  The body of \<open>sanitize_filename\<close> of \<open>DEBUG/utils.py\<close> after the test for an empty
  name, with the replacement template already read.
\<close>

definition sanitize_body :: "(nat \<Rightarrow> ustr) \<Rightarrow> ustr \<Rightarrow> int \<Rightarrow> ustr" where
  "sanitize_body repl name max_length =
     (let name1 = re_sub_class ILLEGAL_FILENAME_CHARS repl name;
          name2 = re_sub_class ILLEGAL_CONTROL_CHARS (\<lambda>c. []) name1;
          name3 = py_strip_chars (asc ''. '') name2;
          name4 = (if int (length name3) > max_length
                   then py_rstrip (py_slice_to max_length name3) else name3)
      in if name4 = [] then unnamed else name4)"

text \<open>
  \<open>sanitize_filename(name, replacement, max_length)\<close> of \<open>DEBUG/utils.py\<close>. Reading the
  replacement template belongs to the library and is a parameter: \<open>parse_template r\<close> is
  the error \<open>re.sub\<close> raises for the template \<open>r\<close> (a bad escape, a reference to a
  group the pattern does not have), or the text the template gives for each match. The
  library reads the template before it looks for a match, but the empty name returns
  before \<open>re.sub\<close> is called.
\<close>

definition sanitize_filename ::
  "(ustr \<Rightarrow> py_error + (nat \<Rightarrow> ustr)) \<Rightarrow> ustr \<Rightarrow> ustr \<Rightarrow> int \<Rightarrow> py_error + ustr" where
  "sanitize_filename parse_template name replacement max_length =
     (if name = [] then Inr unnamed
      else (case parse_template replacement of
              Inl e \<Rightarrow> Inl e
            | Inr repl \<Rightarrow> Inr (sanitize_body repl name max_length)))"

text \<open>
  The call with the default arguments \<open>replacement = "_"\<close>, \<open>max_length = 200\<close>. The
  template \<open>_\<close> holds no backslash, so the library inserts it as it is.
\<close>

definition sanitize_filename_default :: "ustr \<Rightarrow> ustr" where
  "sanitize_filename_default name =
     (if name = [] then unnamed else sanitize_body (\<lambda>c. asc ''_'') name 200)"

text \<open>\<open>sanitize_filename(name)\<close> of \<open>VDDT-beta/utils.py\<close>: one \<open>re.sub\<close>.\<close>

definition sanitize_filename_beta :: "ustr \<Rightarrow> ustr" where
  "sanitize_filename_beta name = re_sub_class ILLEGAL_FILENAME_CHARS (\<lambda>c. asc ''_'') name"

text \<open>
  What \<open>sanitize_filename\<close> computes before the length limit: the illegal characters
  replaced by an underscore, the control characters removed, dots and spaces stripped from
  both ends.
\<close>

definition sanitized_core :: "ustr \<Rightarrow> ustr" where
  "sanitized_core name =
     strip_by (\<lambda>c. c \<in> {46, 32})
       (filter (\<lambda>c. \<not> ILLEGAL_CONTROL_CHARS c)
         (map (\<lambda>c. if ILLEGAL_FILENAME_CHARS c then 95 else c) name))"




section \<open>Splitting and joining\<close>

text \<open>\<open>s.split(sep)\<close> for a one-character separator: never an empty list.\<close>

fun split_on :: "nat \<Rightarrow> ustr \<Rightarrow> ustr list" where
  "split_on sep [] = [[]]"
| "split_on sep (c # cs) =
     (if c = sep then [] # split_on sep cs
      else (case split_on sep cs of [] \<Rightarrow> [[c]] | p # ps \<Rightarrow> (c # p) # ps))"

text \<open>\<open>sep.join(parts)\<close>\<close>

fun join_with :: "ustr \<Rightarrow> ustr list \<Rightarrow> ustr" where
  "join_with sep [] = []"
| "join_with sep [p] = p"
| "join_with sep (p # q # ps) = p @ sep @ join_with sep (q # ps)"

definition py_startswith :: "ustr \<Rightarrow> ustr \<Rightarrow> bool" where
  "py_startswith p s \<longleftrightarrow> take (length p) s = p"

text \<open>\<open>xs[-k:]\<close> for a positive \<open>k\<close>: the last \<open>k\<close> elements, all of them when there are fewer.\<close>

definition last_n :: "nat \<Rightarrow> 'a list \<Rightarrow> 'a list" where
  "last_n k xs = drop (length xs - k) xs"

section \<open>Domain extraction\<close>

text \<open>The labels before which \<open>extract_domain\<close> keeps three labels.\<close>

definition second_level_labels :: "ustr list" where
  "second_level_labels =
     [asc ''co'', asc ''com'', asc ''org'', asc ''net'', asc ''edu'', asc ''gov'']"

text \<open>
  The body of \<open>extract_domain\<close> of \<open>DEBUG/utils.py\<close> from \<open>domain = parsed.netloc\<close> on.
  \<open>parts[-2]\<close> is read only when \<open>len(parts) > 2\<close>.
\<close>

definition extract_domain_netloc :: "ustr \<Rightarrow> ustr option" where
  "extract_domain_netloc netloc =
     (let domain1 = (if 58 \<in> set netloc then hd (split_on 58 netloc) else netloc);
          domain2 = (if py_startswith (asc ''www.'') domain1 then drop 4 domain1 else domain1);
          parts = split_on 46 domain2;
          domain3 =
            (if length parts > 2
             then (if length parts \<ge> 3 \<and> parts ! (length parts - 2) \<in> set second_level_labels
                   then join_with (asc ''.'') (last_n 3 parts)
                   else join_with (asc ''.'') (last_n 2 parts))
             else domain2)
      in if domain3 = [] then None else Some domain3)"

text \<open>
  \<open>extract_domain(url)\<close>. \<open>urllib.parse.urlparse\<close> belongs to the Python library and is a
  parameter: \<open>urlparse_netloc url\<close> is the \<open>netloc\<close> of the parsed URL, or the exception the
  parser raises. Every exception is caught and gives \<open>None\<close>.
\<close>

definition extract_domain :: "(ustr \<Rightarrow> py_error + ustr) \<Rightarrow> ustr \<Rightarrow> ustr option" where
  "extract_domain urlparse_netloc url =
     (case urlparse_netloc url of
        Inl e \<Rightarrow> None
      | Inr netloc \<Rightarrow> extract_domain_netloc netloc)"

text \<open>
  The claim's words, for comparison: the host of a network location
  \<open>[userinfo@]host[:port]\<close> (RFC 3986) whose host is a name or an IPv4 address, not a
  bracketed IPv6 address, and the host reduced as the claim says.
\<close>

definition host_of_netloc :: "ustr \<Rightarrow> ustr" where
  "host_of_netloc netloc = takeWhile (\<lambda>c. c \<noteq> 58) (last (split_on 64 netloc))"

definition reduced_host :: "ustr \<Rightarrow> ustr option" where
  "reduced_host host =
     (let h = (if py_startswith (asc ''www.'') host then drop 4 host else host);
          labels = split_on 46 h;
          keep = (if length labels \<ge> 2 \<and> labels ! (length labels - 2) \<in> set second_level_labels
                  then 3 else 2);
          d = join_with (asc ''.'') (last_n keep labels)
      in if d = [] then None else Some d)"

section \<open>Batch mode\<close>

text \<open>
  The comprehension
  \<^verbatim>\<open>[line.strip() for line in f if line.strip() and not line.startswith('#')]\<close>
  of \<open>VDDT.py\<close> and \<open>DEBUG/tui.py\<close>, over the lines the file object yields.
\<close>

fun read_links :: "ustr list \<Rightarrow> ustr list" where
  "read_links [] = []"
| "read_links (line # rest) =
     (if py_strip line \<noteq> [] \<and> \<not> py_startswith (asc ''#'') line
      then py_strip line # read_links rest
      else read_links rest)"

text \<open>
  What the user sees and what is started: messages, status and progress updates, log
  lines, the start of the worker thread, and \<open>Download url\<close> for a URL handed to the
  download (to \<open>handle_single_download\<close> on the command line, to the engine in the
  text user interface).
\<close>

datatype batch_event = Error_message | Warning_message | Info_message
  | Status_message | Progress_set | Log_error | Thread_started | Download ustr

text \<open>
  The loop of \<open>main\<close> in \<open>VDDT.py\<close> over the links: \<open>handle url\<close> says whether
  \<open>handle_single_download\<close> returns (\<open>True\<close>) or raises; a raise leaves the loop for
  the handler, which prints an error.
\<close>

fun download_all :: "(ustr \<Rightarrow> bool) \<Rightarrow> ustr list \<Rightarrow> batch_event list" where
  "download_all handle [] = []"
| "download_all handle (url # rest) =
     (if handle url then [Info_message, Info_message, Download url, Info_message] @ download_all handle rest
      else [Info_message, Info_message, Download url, Error_message])"

text \<open>
  Choice 2 of \<open>main\<close> in \<open>VDDT.py\<close> once the file exists; \<open>file\<close> is the outcome of
  opening and reading it.
\<close>

definition main_batch :: "(ustr \<Rightarrow> bool) \<Rightarrow> py_error + ustr list \<Rightarrow> batch_event list" where
  "main_batch handle file =
     (case file of
        Inl e \<Rightarrow> [Error_message]
      | Inr lines \<Rightarrow>
          (let links = read_links lines
           in if links = [] then [Error_message]
              else Info_message # download_all handle links))"

text \<open>
  The loop of \<open>batch_task\<close>, the worker of \<open>VDDTApp._on_batch_download\<close>:
  \<open>engine_download url\<close> says whether \<open>ydl.download([url])\<close> returns or raises an
  exception, which is logged; either way the loop goes on with the next link.
\<close>

fun batch_loop :: "(ustr \<Rightarrow> bool) \<Rightarrow> ustr list \<Rightarrow> batch_event list" where
  "batch_loop engine_download [] = []"
| "batch_loop engine_download (url # rest) =
     [Status_message, Progress_set, Download url]
       @ (if engine_download url then [] else [Log_error])
       @ batch_loop engine_download rest"

text \<open>
  \<open>batch_task\<close>: \<open>engine\<close> is \<open>None\<close> when importing the engine or constructing
  \<open>YoutubeDL\<close> raises, which the outer handler logs and shows in the status line.
\<close>

definition batch_task :: "(ustr \<Rightarrow> bool) option \<Rightarrow> ustr list \<Rightarrow> batch_event list" where
  "batch_task engine links =
     (case engine of
        None \<Rightarrow> [Log_error, Status_message]
      | Some engine_download \<Rightarrow> batch_loop engine_download links @ [Status_message, Progress_set])"

text \<open>
  \<open>VDDTApp._on_batch_download\<close> of \<open>DEBUG/tui.py\<close> once the file exists; \<open>dl_mode\<close> is
  the answer of the mode dialog (\<open>None\<close> when cancelled). What the worker thread does
  follows the event of its start.
\<close>

definition on_batch_download ::
  "'m option \<Rightarrow> (ustr \<Rightarrow> bool) option \<Rightarrow> py_error + ustr list \<Rightarrow> batch_event list" where
  "on_batch_download dl_mode engine file =
     (case file of
        Inl e \<Rightarrow> [Error_message]
      | Inr lines \<Rightarrow>
          (let links = read_links lines
           in if links = [] then [Warning_message]
              else (case dl_mode of
                      None \<Rightarrow> []
                    | Some m \<Rightarrow> [Status_message, Thread_started] @ batch_task engine links)))"

text \<open>The URLs handed to the download, in order, and the error and warning messages.\<close>

fun downloads :: "batch_event list \<Rightarrow> ustr list" where
  "downloads [] = []"
| "downloads (Download url # events) = url # downloads events"
| "downloads (e # events) = downloads events"

fun is_message :: "batch_event \<Rightarrow> bool" where
  "is_message Error_message = True"
| "is_message Warning_message = True"
| "is_message e = False"

text \<open>
  The claim's words: a line is kept when it is not empty after stripping and does not
  start with \<open>#\<close> (code point 35).
\<close>

definition kept_line :: "ustr \<Rightarrow> bool" where
  "kept_line l \<longleftrightarrow> py_strip l \<noteq> [] \<and> (case l of [] \<Rightarrow> True | c # t \<Rightarrow> c \<noteq> 35)"

section \<open>Configuration\<close>

text \<open>
  The values a configuration field or a JSON document can hold. Python does not check the
  annotation of a dataclass field, so every field holds any value. A \<open>dict\<close> is an
  association list in insertion order, its keys distinct.
\<close>

datatype pyval = PNone | PBool bool | PInt int | PStr ustr | PList "pyval list"
  | PDict "(ustr \<times> pyval) list"

record DownloadConfig =
  output_dir :: pyval
  default_mode :: pyval
  concurrent_downloads :: pyval
  max_retries :: pyval
  filename_template :: pyval
  download_subtitles :: pyval
  subtitle_languages :: pyval
  embed_thumbnail :: pyval
  download_danmaku :: pyval

record TranscodeConfig =
  default_preset :: pyval
  video_codec :: pyval
  audio_codec :: pyval
  crf :: pyval
  preset :: pyval
  audio_bitrate :: pyval

record NetworkConfig =
  proxy :: pyval
  timeout :: pyval
  user_agent :: pyval

record UIConfig =
  progress_bar_length :: pyval
  verbose :: pyval
  color_output :: pyval

record VDDTConfig =
  download :: DownloadConfig
  transcode :: TranscodeConfig
  network :: NetworkConfig
  ui :: UIConfig
  version :: pyval

text \<open>The defaults of the dataclasses.\<close>

definition DownloadConfig_default :: DownloadConfig where
  "DownloadConfig_default =
     \<lparr> output_dir = PStr (asc ''VDDT_Downloads''),
       default_mode = PInt 1,
       concurrent_downloads = PInt 5,
       max_retries = PInt 10,
       filename_template = PStr (asc ''%(upload_date)s_%(uploader)s_%(title)s.%(ext)s''),
       download_subtitles = PBool False,
       subtitle_languages = PList [PStr (asc ''zh-Hans''), PStr (asc ''zh-CN''), PStr (asc ''en'')],
       embed_thumbnail = PBool False,
       download_danmaku = PBool False \<rparr>"

definition TranscodeConfig_default :: TranscodeConfig where
  "TranscodeConfig_default =
     \<lparr> default_preset = PInt 1,
       video_codec = PStr (asc ''libx264''),
       audio_codec = PStr (asc ''aac''),
       crf = PInt 23,
       preset = PStr (asc ''medium''),
       audio_bitrate = PStr (asc ''192k'') \<rparr>"

definition NetworkConfig_default :: NetworkConfig where
  "NetworkConfig_default =
     \<lparr> proxy = PNone,
       timeout = PInt 30,
       user_agent = PStr (asc (''Mozilla/5.0 (Windows NT 10.0; Win64; x64) AppleWebKit/537.36 ''
         @ ''(KHTML, like Gecko) Chrome/120.0.0.0 Safari/537.36'')) \<rparr>"

definition UIConfig_default :: UIConfig where
  "UIConfig_default =
     \<lparr> progress_bar_length = PInt 40, verbose = PBool False, color_output = PBool True \<rparr>"

definition VDDTConfig_default :: VDDTConfig where
  "VDDTConfig_default =
     \<lparr> download = DownloadConfig_default,
       transcode = TranscodeConfig_default,
       network = NetworkConfig_default,
       ui = UIConfig_default,
       version = PStr (asc ''2.1.0'') \<rparr>"

text \<open>
  \<open>dataclasses.asdict\<close> on each section: the fields in declaration order, each value
  copied (a copy of a value is the value).
\<close>

definition asdict_download :: "DownloadConfig \<Rightarrow> (ustr \<times> pyval) list" where
  "asdict_download d =
     [(asc ''output_dir'', output_dir d),
      (asc ''default_mode'', default_mode d),
      (asc ''concurrent_downloads'', concurrent_downloads d),
      (asc ''max_retries'', max_retries d),
      (asc ''filename_template'', filename_template d),
      (asc ''download_subtitles'', download_subtitles d),
      (asc ''subtitle_languages'', subtitle_languages d),
      (asc ''embed_thumbnail'', embed_thumbnail d),
      (asc ''download_danmaku'', download_danmaku d)]"

definition asdict_transcode :: "TranscodeConfig \<Rightarrow> (ustr \<times> pyval) list" where
  "asdict_transcode t =
     [(asc ''default_preset'', default_preset t),
      (asc ''video_codec'', video_codec t),
      (asc ''audio_codec'', audio_codec t),
      (asc ''crf'', crf t),
      (asc ''preset'', preset t),
      (asc ''audio_bitrate'', audio_bitrate t)]"

definition asdict_network :: "NetworkConfig \<Rightarrow> (ustr \<times> pyval) list" where
  "asdict_network n =
     [(asc ''proxy'', proxy n), (asc ''timeout'', timeout n), (asc ''user_agent'', user_agent n)]"

definition asdict_ui :: "UIConfig \<Rightarrow> (ustr \<times> pyval) list" where
  "asdict_ui u =
     [(asc ''progress_bar_length'', progress_bar_length u),
      (asc ''verbose'', verbose u),
      (asc ''color_output'', color_output u)]"

text \<open>\<open>VDDTConfig.to_dict\<close>\<close>

definition to_dict :: "VDDTConfig \<Rightarrow> (ustr \<times> pyval) list" where
  "to_dict c =
     [(asc ''download'', PDict (asdict_download (download c))),
      (asc ''transcode'', PDict (asdict_transcode (transcode c))),
      (asc ''network'', PDict (asdict_network (network c))),
      (asc ''ui'', PDict (asdict_ui (ui c))),
      (asc ''version'', version c)]"

text \<open>
  \<open>if hasattr(section, key): setattr(section, key, value)\<close> on a section.
  \<^item> A key that names a field sets the field.
  \<^item> Three names that every object has cannot be assigned a JSON value: \<open>__class__\<close>
    raises \<open>TypeError\<close>, \<open>__weakref__\<close> raises \<open>AttributeError\<close>, and \<open>__dict__\<close> raises
    \<open>TypeError\<close> unless the value is a dictionary.
  \<^item> A dictionary assigned to \<open>__dict__\<close> replaces the attributes of the object: a field
    is then the entry of that dictionary, or the default of the class when there is no
    entry.
  \<^item> Any other key changes no field: it is no attribute at all (\<open>hasattr\<close> is false), or a
    name inherited from the class, which \<open>setattr\<close> shadows on the object.
\<close>

definition entry_or :: "(ustr \<times> pyval) list \<Rightarrow> ustr \<Rightarrow> pyval \<Rightarrow> pyval" where
  "entry_or entries key dflt = (case map_of entries key of None \<Rightarrow> dflt | Some v \<Rightarrow> v)"

definition setattr_special :: "ustr \<Rightarrow> pyval \<Rightarrow> py_error option" where
  "setattr_special key v =
     (if key = asc ''__class__'' then Some TypeError
      else if key = asc ''__weakref__'' then Some AttributeError
      else if key = asc ''__dict__'' then (case v of PDict entries \<Rightarrow> None | other \<Rightarrow> Some TypeError)
      else None)"

definition setattr_transcode ::
  "TranscodeConfig \<Rightarrow> ustr \<times> pyval \<Rightarrow> py_error + TranscodeConfig" where
  "setattr_transcode t kv =
     (let key = fst kv; v = snd kv in
      case setattr_special key v of
        Some e \<Rightarrow> Inl e
      | None \<Rightarrow>
          if key = asc ''default_preset'' then Inr (t\<lparr>default_preset := v\<rparr>)
          else if key = asc ''video_codec'' then Inr (t\<lparr>video_codec := v\<rparr>)
          else if key = asc ''audio_codec'' then Inr (t\<lparr>audio_codec := v\<rparr>)
          else if key = asc ''crf'' then Inr (t\<lparr>crf := v\<rparr>)
          else if key = asc ''preset'' then Inr (t\<lparr>preset := v\<rparr>)
          else if key = asc ''audio_bitrate'' then Inr (t\<lparr>audio_bitrate := v\<rparr>)
          else (case v of
                  PDict entries \<Rightarrow>
                    if key = asc ''__dict__''
                    then Inr
                      \<lparr> default_preset = entry_or entries (asc ''default_preset'')
                          (default_preset TranscodeConfig_default),
                        video_codec = entry_or entries (asc ''video_codec'')
                          (video_codec TranscodeConfig_default),
                        audio_codec = entry_or entries (asc ''audio_codec'')
                          (audio_codec TranscodeConfig_default),
                        crf = entry_or entries (asc ''crf'') (crf TranscodeConfig_default),
                        preset = entry_or entries (asc ''preset'') (preset TranscodeConfig_default),
                        audio_bitrate = entry_or entries (asc ''audio_bitrate'')
                          (audio_bitrate TranscodeConfig_default) \<rparr>
                    else Inr t
                | other \<Rightarrow> Inr t))"

definition setattr_network ::
  "NetworkConfig \<Rightarrow> ustr \<times> pyval \<Rightarrow> py_error + NetworkConfig" where
  "setattr_network n kv =
     (let key = fst kv; v = snd kv in
      case setattr_special key v of
        Some e \<Rightarrow> Inl e
      | None \<Rightarrow>
          if key = asc ''proxy'' then Inr (n\<lparr>proxy := v\<rparr>)
          else if key = asc ''timeout'' then Inr (n\<lparr>timeout := v\<rparr>)
          else if key = asc ''user_agent'' then Inr (n\<lparr>user_agent := v\<rparr>)
          else (case v of
                  PDict entries \<Rightarrow>
                    if key = asc ''__dict__''
                    then Inr
                      \<lparr> proxy = entry_or entries (asc ''proxy'') (proxy NetworkConfig_default),
                        timeout = entry_or entries (asc ''timeout'') (timeout NetworkConfig_default),
                        user_agent = entry_or entries (asc ''user_agent'')
                          (user_agent NetworkConfig_default) \<rparr>
                    else Inr n
                | other \<Rightarrow> Inr n))"

definition setattr_ui :: "UIConfig \<Rightarrow> ustr \<times> pyval \<Rightarrow> py_error + UIConfig" where
  "setattr_ui u kv =
     (let key = fst kv; v = snd kv in
      case setattr_special key v of
        Some e \<Rightarrow> Inl e
      | None \<Rightarrow>
          if key = asc ''progress_bar_length'' then Inr (u\<lparr>progress_bar_length := v\<rparr>)
          else if key = asc ''verbose'' then Inr (u\<lparr>verbose := v\<rparr>)
          else if key = asc ''color_output'' then Inr (u\<lparr>color_output := v\<rparr>)
          else (case v of
                  PDict entries \<Rightarrow>
                    if key = asc ''__dict__''
                    then Inr
                      \<lparr> progress_bar_length = entry_or entries (asc ''progress_bar_length'')
                          (progress_bar_length UIConfig_default),
                        verbose = entry_or entries (asc ''verbose'') (verbose UIConfig_default),
                        color_output = entry_or entries (asc ''color_output'')
                          (color_output UIConfig_default) \<rparr>
                    else Inr u
                | other \<Rightarrow> Inr u))"

text \<open>
  The download section has one field without a default in the class,
  \<open>subtitle_languages\<close>, whose default is made by a factory for each object. A
  dictionary assigned to \<open>__dict__\<close> that has no entry for it leaves the object without
  this attribute: \<open>hasattr\<close> is then false for it, and a later entry of the section with
  this key is passed over. The section is carried with a flag that tells whether the
  attribute is missing.
\<close>

definition setattr_download ::
  "DownloadConfig \<times> bool \<Rightarrow> ustr \<times> pyval \<Rightarrow> py_error + DownloadConfig \<times> bool" where
  "setattr_download state kv =
     (let d = fst state; missing = snd state; key = fst kv; v = snd kv in
      case setattr_special key v of
        Some e \<Rightarrow> Inl e
      | None \<Rightarrow>
          if key = asc ''output_dir'' then Inr (d\<lparr>output_dir := v\<rparr>, missing)
          else if key = asc ''default_mode'' then Inr (d\<lparr>default_mode := v\<rparr>, missing)
          else if key = asc ''concurrent_downloads'' then Inr (d\<lparr>concurrent_downloads := v\<rparr>, missing)
          else if key = asc ''max_retries'' then Inr (d\<lparr>max_retries := v\<rparr>, missing)
          else if key = asc ''filename_template'' then Inr (d\<lparr>filename_template := v\<rparr>, missing)
          else if key = asc ''download_subtitles'' then Inr (d\<lparr>download_subtitles := v\<rparr>, missing)
          else if key = asc ''subtitle_languages''
            then (if missing then Inr (d, missing) else Inr (d\<lparr>subtitle_languages := v\<rparr>, missing))
          else if key = asc ''embed_thumbnail'' then Inr (d\<lparr>embed_thumbnail := v\<rparr>, missing)
          else if key = asc ''download_danmaku'' then Inr (d\<lparr>download_danmaku := v\<rparr>, missing)
          else (case v of
                  PDict entries \<Rightarrow>
                    if key = asc ''__dict__''
                    then Inr
                      (\<lparr> output_dir = entry_or entries (asc ''output_dir'')
                           (output_dir DownloadConfig_default),
                         default_mode = entry_or entries (asc ''default_mode'')
                           (default_mode DownloadConfig_default),
                         concurrent_downloads = entry_or entries (asc ''concurrent_downloads'')
                           (concurrent_downloads DownloadConfig_default),
                         max_retries = entry_or entries (asc ''max_retries'')
                           (max_retries DownloadConfig_default),
                         filename_template = entry_or entries (asc ''filename_template'')
                           (filename_template DownloadConfig_default),
                         download_subtitles = entry_or entries (asc ''download_subtitles'')
                           (download_subtitles DownloadConfig_default),
                         subtitle_languages = entry_or entries (asc ''subtitle_languages'')
                           (subtitle_languages d),
                         embed_thumbnail = entry_or entries (asc ''embed_thumbnail'')
                           (embed_thumbnail DownloadConfig_default),
                         download_danmaku = entry_or entries (asc ''download_danmaku'')
                           (download_danmaku DownloadConfig_default) \<rparr>,
                       map_of entries (asc ''subtitle_languages'') = None)
                    else Inr (d, missing)
                | other \<Rightarrow> Inr (d, missing)))"

text \<open>The loop \<open>for key, value in items: ...\<close>, which a raise leaves.\<close>

fun set_items :: "('s \<Rightarrow> ustr \<times> pyval \<Rightarrow> py_error + 's) \<Rightarrow> 's \<Rightarrow> (ustr \<times> pyval) list \<Rightarrow> py_error + 's" where
  "set_items setter section [] = Inr section"
| "set_items setter section (kv # rest) =
     (case setter section kv of
        Inl e \<Rightarrow> Inl e
      | Inr section' \<Rightarrow> set_items setter section' rest)"

text \<open>
  One \<open>if name in data: for key, value in data[name].items(): ...\<close> block of
  \<open>from_dict\<close>. Only a \<open>dict\<close> has \<open>items\<close>; on any other value the call raises
  \<open>AttributeError\<close>.
\<close>

definition load_section ::
  "('s \<Rightarrow> ustr \<times> pyval \<Rightarrow> py_error + 's) \<Rightarrow> 's \<Rightarrow> (ustr \<times> pyval) list \<Rightarrow> ustr \<Rightarrow> py_error + 's" where
  "load_section setter section data name =
     (case map_of data name of
        None \<Rightarrow> Inr section
      | Some (PDict entries) \<Rightarrow> set_items setter section entries
      | Some other \<Rightarrow> Inl AttributeError)"

text \<open>
  \<open>VDDTConfig.from_dict\<close>: the four sections are loaded in turn into a fresh default
  configuration; the \<open>version\<close> entry of the dictionary is not read. When the download
  section is left without its \<open>subtitle_languages\<close> attribute, the object returned is no
  configuration value, and the model gives the \<open>AttributeError\<close> that the first read of
  the attribute raises.
\<close>

definition from_dict :: "(ustr \<times> pyval) list \<Rightarrow> py_error + VDDTConfig" where
  "from_dict data =
     (let config = VDDTConfig_default in
      case load_section setattr_download (download config, False) data (asc ''download'') of
        Inl e \<Rightarrow> Inl e
      | Inr (d, missing) \<Rightarrow>
     (case load_section setattr_transcode (transcode config) data (asc ''transcode'') of
        Inl e \<Rightarrow> Inl e
      | Inr t \<Rightarrow>
     (case load_section setattr_network (network config) data (asc ''network'') of
        Inl e \<Rightarrow> Inl e
      | Inr n \<Rightarrow>
     (case load_section setattr_ui (ui config) data (asc ''ui'') of
        Inl e \<Rightarrow> Inl e
      | Inr u \<Rightarrow>
          if missing then Inl AttributeError
          else Inr (config\<lparr>download := d, transcode := t, network := n, ui := u\<rparr>)))))"

section \<open>Paths and unique file names\<close>

text \<open>\<open>os.path.join(a, b)\<close> on POSIX: an absolute second component replaces the first.\<close>

definition path_join :: "ustr \<Rightarrow> ustr \<Rightarrow> ustr" where
  "path_join a b =
     (if py_startswith [47] b then b
      else if a = [] \<or> last a = 47 then a @ b
      else a @ [47] @ b)"

text \<open>\<open>s.rfind(c)\<close> for one character: the last index of \<open>c\<close>, or \<open>-1\<close>.\<close>

definition rfind :: "nat \<Rightarrow> ustr \<Rightarrow> int" where
  "rfind c s = int (length (dropWhile (\<lambda>x. x \<noteq> c) (rev s))) - 1"

text \<open>
  \<open>os.path.splitext(p)\<close> on POSIX: the split is at the last dot, when that dot comes
  after the last slash and some character between the slash and the dot is not a dot.
\<close>

definition splitext :: "ustr \<Rightarrow> ustr \<times> ustr" where
  "splitext p =
     (let sepIndex = rfind 47 p; dotIndex = rfind 46 p
      in if dotIndex > sepIndex \<and>
            list_ex (\<lambda>c. c \<noteq> 46) (take (nat (dotIndex - (sepIndex + 1))) (drop (nat (sepIndex + 1)) p))
         then (take (nat dotIndex) p, drop (nat dotIndex) p)
         else (p, []))"

text \<open>\<open>str(n)\<close> for a natural number: its decimal digits.\<close>

fun str_nat :: "nat \<Rightarrow> ustr" where
  "str_nat n = (if n < 10 then [48 + n] else str_nat (n div 10) @ [48 + n mod 10])"

declare str_nat.simps [simp del]

text \<open>The candidate \<^verbatim>\<open>f"{name}_{counter}{ext}"\<close> joined to the directory.\<close>

definition candidate :: "ustr \<Rightarrow> ustr \<Rightarrow> ustr \<Rightarrow> nat \<Rightarrow> ustr" where
  "candidate directory name ext counter =
     path_join directory (name @ [95] @ str_nat counter @ ext)"

text \<open>
  The \<open>while os.path.exists(filepath)\<close> loop of \<open>get_unique_filepath\<close>. The file system
  is the list \<open>fs\<close> of the paths that exist. The loop has no bound of its own, so it is a
  partial function: \<open>None\<close> stands for a loop that never ends.
\<close>

partial_function (option) unique_loop ::
  "ustr list \<Rightarrow> ustr \<Rightarrow> ustr \<Rightarrow> ustr \<Rightarrow> ustr \<Rightarrow> nat \<Rightarrow> ustr option" where
  "unique_loop fs directory name ext filepath counter =
     (if filepath \<in> set fs
      then unique_loop fs directory name ext (candidate directory name ext counter) (counter + 1)
      else Some filepath)"

declare unique_loop.simps [code]

definition get_unique_filepath :: "ustr list \<Rightarrow> ustr \<Rightarrow> ustr \<Rightarrow> ustr option" where
  "get_unique_filepath fs directory filename =
     (let filepath = path_join directory filename
      in if filepath \<notin> set fs then Some filepath
         else (case splitext filename of
                 (name, ext) \<Rightarrow> unique_loop fs directory name ext filepath 1))"

text \<open>
  A file name: one path component, that is, not empty, without a slash, and neither of
  the two names \<open>.\<close> and \<open>..\<close> that stand for a directory itself and its parent.
\<close>

definition is_file_name :: "ustr \<Rightarrow> bool" where
  "is_file_name f \<longleftrightarrow> f \<noteq> [] \<and> 47 \<notin> set f \<and> f \<noteq> asc ''.'' \<and> f \<noteq> asc ''..''"

text \<open>
  A path lies inside a directory when it is the directory, a slash (none when the
  directory is empty, which stands for the current directory, or ends with a slash
  already), and one file name: the path names an entry of that directory.
\<close>

definition dir_prefix :: "ustr \<Rightarrow> ustr" where
  "dir_prefix directory =
     (if directory = [] \<or> last directory = 47 then directory else directory @ [47])"

definition inside_dir :: "ustr \<Rightarrow> ustr \<Rightarrow> bool" where
  "inside_dir directory p \<longleftrightarrow>
     prefix (dir_prefix directory) p \<and> is_file_name (drop (length (dir_prefix directory)) p)"

text \<open>Reading a decimal numeral back.\<close>

definition nat_of_digits :: "ustr \<Rightarrow> nat" where
  "nat_of_digits ds = foldl (\<lambda>a d. 10 * a + (d - 48)) 0 ds"

section \<open>Cookie files\<close>



definition netscape_header :: ustr where
  "netscape_header = asc ''# Netscape HTTP Cookie File''"

text \<open>
  One line of the converted file, from a part that holds an equals sign:
  \<^verbatim>\<open>name, value = part.split('=', 1)\<close> and the f-string of
  \<open>prepare_cookies_netscape\<close>, the fields separated by tabs (code point 9).
\<close>

definition cookie_line :: "ustr \<Rightarrow> ustr \<Rightarrow> ustr" where
  "cookie_line domain part =
     (let name = takeWhile (\<lambda>c. c \<noteq> 61) part;
          val = drop (length name + 1) part
      in [46] @ domain @ [9] @ asc ''TRUE'' @ [9] @ asc ''/'' @ [9] @ asc ''FALSE'' @ [9]
           @ asc ''0'' @ [9] @ py_strip name @ [9] @ py_strip val)"













section \<open>The downloader core and the download engine\<close>

text \<open>
  What the download engine can raise into the caller: its own error classes, any other
  subclass of \<open>Exception\<close>, and the two exceptions outside \<open>Exception\<close>.
\<close>

datatype engine_exc = DownloadError | ExtractorError | PostProcessingError | OtherException
  | KeyboardInterrupt | SystemExit

fun is_Exception :: "engine_exc \<Rightarrow> bool" where
  "is_Exception KeyboardInterrupt = False"
| "is_Exception SystemExit = False"
| "is_Exception e = True"

text \<open>The truth value of a Python value, as \<open>not\<close> and \<open>if\<close> read it.\<close>

fun truthy :: "pyval \<Rightarrow> bool" where
  "truthy PNone = False"
| "truthy (PBool b) = b"
| "truthy (PInt i) = (i \<noteq> 0)"
| "truthy (PStr s) = (s \<noteq> [])"
| "truthy (PList l) = (l \<noteq> [])"
| "truthy (PDict d) = (d \<noteq> [])"

type_synonym ydl_opts = "ustr \<rightharpoonup> pyval"

text \<open>
  What a call does besides returning: log lines, console output, and the calls of the
  engine's entry points with the options and the URL they receive.
\<close>

datatype core_event = Logged | Printed_info | Printed_warning | Printed_error
  | Displayed_formats | Slept
  | Engine_extract_info ydl_opts ustr | Engine_download ydl_opts ustr

fun is_engine_call :: "core_event \<Rightarrow> bool" where
  "is_engine_call (Engine_extract_info opts url) = True"
| "is_engine_call (Engine_download opts url) = True"
| "is_engine_call ev = False"

text \<open>\<open>DownloaderCore._get_base_opts\<close>\<close>

definition get_base_opts :: "VDDTConfig \<Rightarrow> ydl_opts" where
  "get_base_opts config =
     [asc ''user_agent'' \<mapsto> user_agent (network config),
      asc ''quiet'' \<mapsto> PBool (\<not> truthy (verbose (ui config))),
      asc ''no_warnings'' \<mapsto> PBool (\<not> truthy (verbose (ui config))),
      asc ''ignoreerrors'' \<mapsto> PBool True,
      asc ''nocheckcertificate'' \<mapsto> PBool True,
      asc ''socket_timeout'' \<mapsto> timeout (network config)]"

text \<open>
  \<open>DownloaderCore.get_format_lists(url, ydl_opts)\<close>. The engine is a parameter:
  \<open>extract_info opts url\<close> is what constructing \<open>YoutubeDL(opts)\<close> and calling
  \<open>extract_info(url, download=False)\<close> does, a raise or the information returned
  (\<open>None\<close> for a falsy value). \<open>build info\<close> is \<open>VideoInfo.from_ytdlp\<close> followed by the
  display of the formats: the video information with its formats, or an exception.
  The result is the returned pair, or the exception that leaves the method.
\<close>

definition get_format_lists ::
  "VDDTConfig \<Rightarrow> (ydl_opts \<Rightarrow> ustr \<Rightarrow> engine_exc + 'i option) \<Rightarrow> ('i \<Rightarrow> py_error + 'v \<times> 'f list) \<Rightarrow>
   ustr \<Rightarrow> ydl_opts \<Rightarrow> (engine_exc + 'v option \<times> 'f list) \<times> core_event list" where
  "get_format_lists config extract_info build url ydl_opts =
     (let opts = get_base_opts config ++ ydl_opts;
          before = [Logged, Printed_info, Engine_extract_info opts url]
      in case extract_info opts url of
           Inl DownloadError \<Rightarrow> (Inr (None, []), before @ [Logged, Printed_error, Printed_info])
         | Inl ExtractorError \<Rightarrow> (Inr (None, []), before @ [Logged, Printed_error])
         | Inl e \<Rightarrow>
             (if is_Exception e then (Inr (None, []), before @ [Logged, Printed_error])
              else (Inl e, before))
         | Inr None \<Rightarrow> (Inr (None, []), before @ [Logged])
         | Inr (Some info) \<Rightarrow>
             (case build info of
                Inl err \<Rightarrow> (Inr (None, []), before @ [Logged, Printed_error])
              | Inr (video_info, formats) \<Rightarrow>
                  (Inr (Some video_info, formats), before @ [Displayed_formats, Logged])))"

text \<open>
  The options \<open>DownloaderCore.download\<close> hands to the engine. \<open>outtmpl\<close> is the output
  template built from the output directory and the video information, \<open>hook\<close> the
  progress callback.
\<close>

definition download_opts ::
  "VDDTConfig \<Rightarrow> ydl_opts \<Rightarrow> pyval \<Rightarrow> pyval \<Rightarrow> pyval \<Rightarrow> ydl_opts" where
  "download_opts config ydl_opts outtmpl format_id hook =
     (get_base_opts config ++ ydl_opts)
       (asc ''outtmpl'' \<mapsto> outtmpl,
        asc ''format'' \<mapsto> format_id,
        asc ''progress_hooks'' \<mapsto> PList [hook],
        asc ''concurrent_fragment_downloads'' \<mapsto> concurrent_downloads (download config),
        asc ''fragment_retries'' \<mapsto> max_retries (download config),
        asc ''retries'' \<mapsto> max_retries (download config))"

text \<open>
  \<open>DownloaderCore.download\<close>. \<open>engine_download opts url\<close> is what constructing
  \<open>YoutubeDL(opts)\<close> and calling \<open>download([url])\<close> does: a raise, or a return.
\<close>

definition DownloaderCore_download ::
  "VDDTConfig \<Rightarrow> (ydl_opts \<Rightarrow> ustr \<Rightarrow> engine_exc + unit) \<Rightarrow> ustr \<Rightarrow> pyval \<Rightarrow> pyval \<Rightarrow> pyval \<Rightarrow>
   ydl_opts \<Rightarrow> (engine_exc + bool) \<times> core_event list" where
  "DownloaderCore_download config engine_download url format_id outtmpl hook ydl_opts =
     (let opts = download_opts config ydl_opts outtmpl format_id hook;
          before = [Logged, Logged, Printed_info, Printed_info, Printed_info,
                    Engine_download opts url]
      in case engine_download opts url of
           Inr u \<Rightarrow> (Inr True, before @ [Slept, Logged, Printed_info])
         | Inl DownloadError \<Rightarrow> (Inr False, before @ [Logged, Printed_error, Printed_info])
         | Inl PostProcessingError \<Rightarrow> (Inr False, before @ [Logged, Printed_error])
         | Inl KeyboardInterrupt \<Rightarrow> (Inr False, before @ [Logged, Printed_warning])
         | Inl e \<Rightarrow>
             (if is_Exception e then (Inr False, before @ [Logged, Printed_error])
              else (Inl e, before)))"

text \<open>
  The decorator \<open>retry_on_error(max_retries)\<close> of \<open>utils.py\<close> with its default exception
  class \<open>Exception\<close> (the bound is called \<open>retries\<close> here): \<open>func attempt\<close> is the outcome of the call in the given attempt.
  The result comes with the number of calls made. \<open>retry_from\<close> runs the attempts from
  \<open>attempt\<close> on, \<open>left\<close> of them remaining.
\<close>

fun retry_from :: "nat \<Rightarrow> nat \<Rightarrow> (nat \<Rightarrow> engine_exc + 'a) \<Rightarrow> (engine_exc + 'a) \<times> nat" where
  "retry_from attempt 0 func =
     (case func attempt of
        Inr v \<Rightarrow> (Inr v, attempt + 1)
      | Inl e \<Rightarrow> (Inl e, attempt + 1))"
| "retry_from attempt (Suc left) func =
     (case func attempt of
        Inr v \<Rightarrow> (Inr v, attempt + 1)
      | Inl e \<Rightarrow> (if is_Exception e then retry_from (attempt + 1) left func
                  else (Inl e, attempt + 1)))"

definition retry_on_error :: "nat \<Rightarrow> (nat \<Rightarrow> engine_exc + 'a) \<Rightarrow> (engine_exc + 'a) \<times> nat" where
  "retry_on_error retries func = retry_from 0 retries func"

section \<open>The text user interface\<close>

text \<open>
  A key is the integer \<open>getch\<close> returns: \<open>-1\<close> on a timeout, a character code, or a
  curses key code.
\<close>

definition KEY_UP :: int where "KEY_UP = 259"
definition KEY_DOWN :: int where "KEY_DOWN = 258"

definition is_enter :: "int \<Rightarrow> bool" where
  "is_enter key \<longleftrightarrow> key = 10 \<or> key = 13"

text \<open>
  The subscript \<open>xs[i]\<close> of a Python list. From zero upwards the index counts from the
  front; a negative index \<open>-m\<close> names the \<open>m\<close>-th element from the back. Outside
  \<open>-len(xs) .. len(xs) - 1\<close> the subscript raises \<open>IndexError\<close>.
\<close>

definition py_index :: "'a list \<Rightarrow> int \<Rightarrow> py_error + 'a" where
  "py_index xs i =
     (if 0 \<le> i
      then (if nat i < length xs then Inr (xs ! nat i) else Inl IndexError)
      else (if nat (- i) \<le> length xs then Inr (xs ! (length xs - nat (- i)))
            else Inl IndexError))"

subsection \<open>SelectDialog\<close>

record ('t, 'a) SelectDialog =
  height :: int
  options :: "('t \<times> 'a) list"
  selected :: int
  scroll_offset :: int
  result :: "'a option"

text \<open>
  One round of the loop of \<open>SelectDialog.show\<close> after \<open>getch\<close>: the dialog afterwards and
  whether the loop was left. \<open>x % 0\<close> raises \<open>ZeroDivisionError\<close>.
\<close>

definition select_key ::
  "('t, 'a) SelectDialog \<Rightarrow> int \<Rightarrow> py_error + ('t, 'a) SelectDialog \<times> bool" where
  "select_key d key =
     (let visible_count = height d - 5; n = int (length (options d)) in
      if key = KEY_UP \<or> key = 107 then
        (if n = 0 then Inl ZeroDivisionError
         else let sel = (selected d - 1) mod n
              in Inr (d\<lparr>selected := sel,
                        scroll_offset := (if sel < scroll_offset d then sel else scroll_offset d)\<rparr>,
                      False))
      else if key = KEY_DOWN \<or> key = 106 then
        (if n = 0 then Inl ZeroDivisionError
         else let sel = (selected d + 1) mod n
              in Inr (d\<lparr>selected := sel,
                        scroll_offset := (if sel \<ge> scroll_offset d + visible_count
                                          then sel - visible_count + 1 else scroll_offset d)\<rparr>,
                      False))
      else if is_enter key then
        (case py_index (options d) (selected d) of
           Inl e \<Rightarrow> Inl e
         | Inr opt \<Rightarrow> Inr (d\<lparr>result := Some (snd opt)\<rparr>, True))
      else if key = 113 \<or> key = 81 then Inr (d, True)
      else if 49 \<le> key \<and> key \<le> 57 then
        (let idx = key - 49
         in if idx < n
            then (case py_index (options d) idx of
                    Inl e \<Rightarrow> Inl e
                  | Inr opt \<Rightarrow> Inr (d\<lparr>result := Some (snd opt)\<rparr>, True))
            else Inr (d, False))
      else Inr (d, False))"

text \<open>The loop over the keys pressed, until it is left or the keys run out.\<close>

fun select_show ::
  "('t, 'a) SelectDialog \<Rightarrow> int list \<Rightarrow> py_error + ('t, 'a) SelectDialog" where
  "select_show d [] = Inr d"
| "select_show d (key # keys) =
     (case select_key d key of
        Inl e \<Rightarrow> Inl e
      | Inr (d', left) \<Rightarrow> if left then Inr d' else select_show d' keys)"

text \<open>\<open>SelectDialog.__init__\<close>, the height as computed from the screen.\<close>

definition select_init :: "int \<Rightarrow> ('t \<times> 'a) list \<Rightarrow> ('t, 'a) SelectDialog" where
  "select_init h opts =
     \<lparr> height = h, options = opts, selected = 0, scroll_offset = 0, result = None \<rparr>"

definition select_inv :: "('t, 'a) SelectDialog \<Rightarrow> bool" where
  "select_inv d \<longleftrightarrow> 0 \<le> selected d \<and> selected d < int (length (options d))"

subsection \<open>FileBrowserDialog\<close>

text \<open>
  The operating system as the file browser sees it: \<open>os.listdir\<close> (which can raise),
  \<open>os.path.isdir\<close>, \<open>os.path.isfile\<close> and \<open>os.path.abspath\<close>.
\<close>

record os_env =
  listdir :: "ustr \<Rightarrow> py_error + ustr list"
  isdir :: "ustr \<Rightarrow> bool"
  isfile :: "ustr \<Rightarrow> bool"
  abspath :: "ustr \<Rightarrow> ustr"

record FileBrowserDialog =
  fb_height :: int
  current_path :: ustr
  fb_selected :: int
  items :: "(ustr \<times> ustr) list"
  fb_scroll_offset :: int

text \<open>The labels: the entry for the parent directory and the one for a failed listing.\<close>

definition parent_item :: "ustr \<times> ustr" where
  "parent_item = (asc ''.. ['' @ [36820, 22238, 19978, 32423] @ asc '']'', asc ''..'')"

definition no_access_item :: "ustr \<times> ustr" where
  "no_access_item = ([26080, 27861, 35775, 38382, 35813, 30446, 24405], [])"

text \<open>
  \<open>FileBrowserDialog._refresh_items\<close>. Only \<open>os.listdir\<close> can raise inside the
  \<open>try\<close>; the handler replaces the items and leaves \<open>selected\<close> and
  \<open>scroll_offset\<close> as they are.
\<close>

definition refresh_items :: "os_env \<Rightarrow> FileBrowserDialog \<Rightarrow> FileBrowserDialog" where
  "refresh_items os d =
     (case listdir os (current_path d) of
        Inl e \<Rightarrow> d\<lparr>items := [parent_item, no_access_item]\<rparr>
      | Inr entries \<Rightarrow>
          (let dirs = sort (filter (\<lambda>e. isdir os (path_join (current_path d) e)) entries);
               files = sort (filter (\<lambda>e. isfile os (path_join (current_path d) e)) entries)
           in d\<lparr>items := [parent_item]
                    @ map (\<lambda>e. ([128193, 32] @ e @ [47], e)) dirs
                    @ map (\<lambda>e. ([128196, 32] @ e, e)) files,
                 fb_selected := 0, fb_scroll_offset := 0\<rparr>))"

text \<open>\<open>FileBrowserDialog.__init__\<close>\<close>

definition browser_init :: "os_env \<Rightarrow> int \<Rightarrow> ustr \<Rightarrow> FileBrowserDialog" where
  "browser_init os h start_path =
     refresh_items os
       \<lparr> fb_height = h, current_path = abspath os start_path, fb_selected = 0, items = [],
         fb_scroll_offset = 0 \<rparr>"

text \<open>
  One round of the loop of \<open>FileBrowserDialog.show\<close> after \<open>getch\<close>: the dialog
  afterwards, and the value returned when the method returns.
\<close>

definition browser_key ::
  "os_env \<Rightarrow> FileBrowserDialog \<Rightarrow> int \<Rightarrow> py_error + FileBrowserDialog \<times> ustr option option" where
  "browser_key os d key =
     (let visible_count = fb_height d - 6; n = int (length (items d)) in
      if key = - 1 then Inr (d, None)
      else if key = KEY_UP \<or> key = 107 then
        (if n = 0 then Inl ZeroDivisionError
         else let sel = (fb_selected d - 1) mod n
              in Inr (d\<lparr>fb_selected := sel,
                        fb_scroll_offset := (if sel < fb_scroll_offset d then sel
                                             else fb_scroll_offset d)\<rparr>,
                      None))
      else if key = KEY_DOWN \<or> key = 106 then
        (if n = 0 then Inl ZeroDivisionError
         else let sel = (fb_selected d + 1) mod n
              in Inr (d\<lparr>fb_selected := sel,
                        fb_scroll_offset := (if sel \<ge> fb_scroll_offset d + visible_count
                                             then sel - visible_count + 1
                                             else fb_scroll_offset d)\<rparr>,
                      None))
      else if is_enter key then
        (case py_index (items d) (fb_selected d) of
           Inl e \<Rightarrow> Inl e
         | Inr item \<Rightarrow>
             (if snd item = [] then Inr (d, None)
              else let new_path = abspath os (path_join (current_path d) (snd item))
                   in if isdir os new_path
                      then Inr (refresh_items os (d\<lparr>current_path := new_path\<rparr>), None)
                      else Inr (d, Some (Some new_path))))
      else if key = 115 \<or> key = 83 then Inr (d, Some (Some (current_path d)))
      else if key = 113 \<or> key = 81 then Inr (d, Some None)
      else Inr (d, None))"

fun browser_show ::
  "os_env \<Rightarrow> FileBrowserDialog \<Rightarrow> int list \<Rightarrow> py_error + FileBrowserDialog \<times> ustr option option" where
  "browser_show os d [] = Inr (d, None)"
| "browser_show os d (key # keys) =
     (case browser_key os d key of
        Inl e \<Rightarrow> Inl e
      | Inr (d', None) \<Rightarrow> browser_show os d' keys
      | Inr (d', Some r) \<Rightarrow> Inr (d', Some r))"

definition browser_inv :: "FileBrowserDialog \<Rightarrow> bool" where
  "browser_inv d \<longleftrightarrow> 0 \<le> fb_selected d \<and> fb_selected d < int (length (items d))"

subsection \<open>VDDTApp\<close>

datatype item_type = Header | Divider | Item

text \<open>The kinds of the fifteen entries of the main menu, in order.\<close>

definition main_menu :: "item_type list" where
  "main_menu =
     [Header, Item, Item, Divider, Header, Item, Item, Divider,
      Header, Item, Item, Divider, Header, Item, Item]"

text \<open>
  The state of the application the menu needs: \<open>selectable_indices\<close> is \<open>None\<close> until a
  draw pass has set the attribute.
\<close>

record VDDTApp =
  menu_index :: int
  selectable_indices :: "nat list option"

definition app_init :: VDDTApp where
  "app_init = \<lparr> menu_index = 0, selectable_indices = None \<rparr>"

text \<open>
  What a key makes the application call: the callback of a menu entry (given by the index
  of the entry), the quit dialog, or the help dialog. None of them assigns \<open>menu_index\<close>.
\<close>

datatype called = No_call | Menu_callback nat | Quit_dialog | Help_dialog

text \<open>
  The loop over the menu entries in \<open>VDDTApp._draw\<close>: \<open>y\<close> is the screen line, \<open>i\<close> the
  index of the entry; the loop ends at the line \<open>h - 4\<close>.
\<close>

fun draw_items :: "int \<Rightarrow> int \<Rightarrow> nat \<Rightarrow> item_type list \<Rightarrow> nat list" where
  "draw_items h y i [] = []"
| "draw_items h y i (t # ts) =
     (if y \<ge> h - 4 then []
      else (if t = Item then [i] else []) @ draw_items h (y + 1) (i + 1) ts)"

text \<open>
  \<open>VDDTApp._draw\<close> on a window of \<open>h\<close> lines and \<open>w\<close> columns, as far as the menu state
  goes (writing to the screen is taken to succeed): a window that is too small leaves the
  list of the last pass.
\<close>

definition draw :: "int \<Rightarrow> int \<Rightarrow> VDDTApp \<Rightarrow> VDDTApp" where
  "draw h w app =
     (if h < 10 \<or> w < 40 then app
      else app\<lparr>selectable_indices := Some (draw_items h 4 0 main_menu)\<rparr>)"

text \<open>
  \<open>VDDTApp._quick_select(index)\<close> and \<open>VDDTApp._handle_input\<close> for one key: the state
  afterwards and what was called. Every selectable entry of the main menu has a callback.
\<close>

definition quick_select :: "VDDTApp \<Rightarrow> int \<Rightarrow> py_error + VDDTApp \<times> called" where
  "quick_select app index =
     (case selectable_indices app of
        None \<Rightarrow> Inl AttributeError
      | Some selectable \<Rightarrow>
          (if index < int (length selectable)
           then (case py_index selectable index of
                   Inl e \<Rightarrow> Inl e
                 | Inr idx \<Rightarrow> Inr (app, Menu_callback idx))
           else Inr (app, No_call)))"

definition handle_input :: "VDDTApp \<Rightarrow> int \<Rightarrow> py_error + VDDTApp \<times> called" where
  "handle_input app key =
     (if key = - 1 then Inr (app, No_call)
      else case selectable_indices app of
        None \<Rightarrow> Inl AttributeError
      | Some selectable \<Rightarrow>
          (let n = int (length selectable) in
           if key = KEY_UP \<or> key = 107 then
             (if selectable \<noteq> []
              then Inr (app\<lparr>menu_index := (menu_index app - 1) mod n\<rparr>, No_call)
              else Inr (app, No_call))
           else if key = KEY_DOWN \<or> key = 106 then
             (if selectable \<noteq> []
              then Inr (app\<lparr>menu_index := (menu_index app + 1) mod n\<rparr>, No_call)
              else Inr (app, No_call))
           else if is_enter key then
             (if selectable \<noteq> []
              then (case py_index selectable (menu_index app) of
                      Inl e \<Rightarrow> Inl e
                    | Inr idx \<Rightarrow> Inr (app, Menu_callback idx))
              else Inr (app, No_call))
           else if key = 113 \<or> key = 81 then Inr (app, Quit_dialog)
           else if key = 104 \<or> key = 72 then Inr (app, Help_dialog)
           else if 49 \<le> key \<and> key \<le> 54 then quick_select app (key - 49)
           else if key = 97 \<or> key = 65 then quick_select app 7
           else Inr (app, No_call)))"

text \<open>
  The loop of \<open>VDDTApp.run\<close> over the rounds it makes while \<open>running\<close> is set, each
  round the window size at the draw pass and the key read after it.
\<close>

fun run :: "VDDTApp \<Rightarrow> ((int \<times> int) \<times> int) list \<Rightarrow> py_error + VDDTApp" where
  "run app [] = Inr app"
| "run app (((h, w), key) # rounds) =
     (case handle_input (draw h w app) key of
        Inl e \<Rightarrow> Inl e
      | Inr (app', c) \<Rightarrow> run app' rounds)"

definition menu_inv :: "VDDTApp \<Rightarrow> bool" where
  "menu_inv app \<longleftrightarrow>
     (case selectable_indices app of
        None \<Rightarrow> False
      | Some selectable \<Rightarrow> 0 \<le> menu_index app \<and> menu_index app < int (length selectable))"

text \<open>
  An example directory tree for the file browser: \<open>/v\<close> holds the directories \<open>a\<close> and
  \<open>locked\<close>, and listing \<open>/v/locked\<close> is refused.
\<close>

definition example_os :: os_env where
  "example_os =
     \<lparr> listdir = (\<lambda>p. if p = asc ''/v'' then Inr [asc ''locked'', asc ''a'']
                       else if p = asc ''/v/a'' then Inr []
                       else Inl IOError),
       isdir = (\<lambda>p. p \<in> {asc ''/v'', asc ''/v/a'', asc ''/v/locked''}),
       isfile = (\<lambda>p. False),
       abspath = (\<lambda>p. p) \<rparr>"

section \<open>File sizes\<close>

text \<open>The number of binary digits of a natural number.\<close>

fun bitlen :: "nat \<Rightarrow> nat" where
  "bitlen n = (if n = 0 then 0 else Suc (bitlen (n div 2)))"

declare bitlen.simps [simp del]

text \<open>
  \<open>float(n)\<close> for a non-negative integer: the double nearest to \<open>n\<close>, ties to the even
  mantissa of 53 bits, given as the integer it equals; \<open>OverflowError\<close> when the rounded
  value is \<open>2 ^ 1024\<close> or more.
\<close>

definition float_of_nat :: "nat \<Rightarrow> py_error + nat" where
  "float_of_nat n =
     (if bitlen n \<le> 53 then Inr n
      else
        let shift = bitlen n - 53;
            q = n div 2 ^ shift;
            r = n mod 2 ^ shift;
            half = 2 ^ (shift - 1);
            q' = (if r > half \<or> (r = half \<and> odd q) then q + 1 else q);
            v = q' * 2 ^ shift
        in if v \<ge> 2 ^ 1024 then Inl OverflowError else Inr v)"

text \<open>
  The size in the loop of \<open>format_filesize\<close> is the double \<open>v / 1024 ^ k\<close>, where \<open>v\<close> is
  the value of \<open>float(size_bytes)\<close> and \<open>k\<close> counts the divisions done, each of them exact
  (a division of a double not below 1024 by a power of two). \<open>round_half_even a d\<close> is
  \<open>a / d\<close> rounded to the nearest integer, ties to even, and \<open>two_decimals v k\<close> the text
  of \<^verbatim>\<open>f"{size:.2f}"\<close>, which rounds the exact value of the double this way.
\<close>

definition round_half_even :: "nat \<Rightarrow> nat \<Rightarrow> nat" where
  "round_half_even a d =
     (let q = a div d; r = a mod d
      in if 2 * r > d \<or> (2 * r = d \<and> odd q) then q + 1 else q)"

definition hundredths_text :: "nat \<Rightarrow> ustr" where
  "hundredths_text h = str_nat (h div 100) @ [46] @ [48 + (h mod 100) div 10, 48 + h mod 10]"

definition two_decimals :: "nat \<Rightarrow> nat \<Rightarrow> ustr" where
  "two_decimals v k = hundredths_text (round_half_even (100 * v) (1024 ^ k))"

text \<open>The loop \<open>for unit in units[:-1]\<close> and the \<open>return\<close> after it.\<close>

fun size_loop :: "nat \<Rightarrow> nat \<Rightarrow> ustr list \<Rightarrow> ustr" where
  "size_loop v k [] = two_decimals v k @ [32] @ asc ''TB''"
| "size_loop v k (unit # units) =
     (if v < 1024 * 1024 ^ k then two_decimals v k @ [32] @ unit
      else size_loop v (k + 1) units)"

definition unknown_size :: ustr where
  "unknown_size = [26410, 30693]"

text \<open>\<open>format_filesize(size_bytes)\<close> for \<open>None\<close> or an integer.\<close>

definition format_filesize :: "int option \<Rightarrow> py_error + ustr" where
  "format_filesize size_bytes =
     (case size_bytes of
        None \<Rightarrow> Inr unknown_size
      | Some n \<Rightarrow>
          if n < 0 then Inr unknown_size
          else (case float_of_nat (nat n) of
                  Inl e \<Rightarrow> Inl e
                | Inr v \<Rightarrow> Inr (size_loop v 0 [asc ''B'', asc ''KB'', asc ''MB'', asc ''GB''])))"

definition size_units :: "ustr list" where
  "size_units = [asc ''B'', asc ''KB'', asc ''MB'', asc ''GB'', asc ''TB'']"

section \<open>Properties\<close>

subsection \<open>Stripping\<close>






lemma rstrip_by_id: "s \<noteq> [] \<Longrightarrow> \<not> p (last s) \<Longrightarrow> rstrip_by p s = s"
  unfolding rstrip_by_def by (cases "rev s") (auto simp: last_rev)




lemma lstrip_by_id: "s \<noteq> [] \<Longrightarrow> \<not> p (hd s) \<Longrightarrow> lstrip_by p s = s"
  unfolding lstrip_by_def by (cases s) auto





lemma strip_by_id: "s \<noteq> [] \<Longrightarrow> \<not> p (hd s) \<Longrightarrow> \<not> p (last s) \<Longrightarrow> strip_by p s = s"
  unfolding strip_by_def by (simp add: lstrip_by_id rstrip_by_id)


subsection \<open>File name sanitising\<close>

lemma re_sub_class_single:
  "re_sub_class cls (\<lambda>c. [r]) s = map (\<lambda>c. if cls c then r else c) s"
  unfolding re_sub_class_def by (induction s) auto

lemma re_sub_class_empty: "re_sub_class cls (\<lambda>c. []) s = filter (\<lambda>c. \<not> cls c) s"
  unfolding re_sub_class_def by (induction s) auto

lemma asc_underscore: "asc ''_'' = [95]"
  by (simp add: asc_def)

lemma asc_dot_space: "set (asc ''. '') = {46, 32}"
  by (simp add: asc_def)


lemma sanitize_filename_default_unfold:
  "sanitize_filename_default name =
     (if name = [] then unnamed
      else let n4 = (if 200 < length (sanitized_core name)
                     then rstrip_by py_isspace (take 200 (sanitized_core name))
                     else sanitized_core name)
           in if n4 = [] then unnamed else n4)"
  by (simp add: sanitize_filename_default_def sanitize_body_def sanitized_core_def
      re_sub_class_single re_sub_class_empty asc_underscore py_strip_chars_def asc_dot_space
      py_rstrip_def py_slice_to_def Let_def)

text \<open>
  The call of \<open>sanitize_filename\<close> itself with the default arguments, given that the
  library reads the template \<open>_\<close> as the text \<open>_\<close>.
\<close>

lemma sanitize_filename_default_call:
  "parse_template (asc ''_'') = Inr (\<lambda>c. asc ''_'') \<Longrightarrow>
   sanitize_filename parse_template name (asc ''_'') 200 = Inr (sanitize_filename_default name)"
  by (simp add: sanitize_filename_def sanitize_filename_default_def)















text \<open>
  Two inputs outside the amended claim: the backslash is not in the character class of the
  code and passes through, and \<open>rstrip()\<close> after the cut removes whitespace only, so a
  dot can end a name that was cut at 200 characters.
\<close>

lemma sanitize_keeps_backslash:
  "sanitize_filename_default [97, 92, 98] = [97, 92, 98]"
  by (simp add: sanitize_filename_default_unfold sanitized_core_def strip_by_def lstrip_by_def
      rstrip_by_def ILLEGAL_FILENAME_CHARS_def ILLEGAL_CONTROL_CHARS_def)

lemma sanitize_trailing_dot_after_cut:
  "last (sanitize_filename_default (replicate 199 97 @ [46, 98])) = 46"
  by (simp add: sanitize_filename_default_unfold sanitized_core_def strip_by_def lstrip_by_def
      rstrip_by_def ILLEGAL_FILENAME_CHARS_def ILLEGAL_CONTROL_CHARS_def py_isspace_def)

text \<open>
  Claim C3, as amended. The two variants of \<open>sanitize_filename\<close> return the same string
  for every name that is not empty, has at most 200 characters, holds no control character
  and neither begins nor ends with a space or a dot.
\<close>

theorem sanitize_variants_agree:
  assumes "name \<noteq> []" and "length name \<le> 200"
    and "list_all (\<lambda>c. \<not> ILLEGAL_CONTROL_CHARS c) name"
    and "hd name \<noteq> 32" "hd name \<noteq> 46" "last name \<noteq> 32" "last name \<noteq> 46"
  shows "sanitize_filename_default name = sanitize_filename_beta name"
proof -
  let ?m = "map (\<lambda>c. if ILLEGAL_FILENAME_CHARS c then 95 else c) name"
  have beta: "sanitize_filename_beta name = ?m"
    by (simp add: sanitize_filename_beta_def asc_underscore re_sub_class_single)
  have "filter (\<lambda>c. \<not> ILLEGAL_CONTROL_CHARS c) ?m = ?m"
    using assms(3) by (intro filter_True) (auto simp: list_all_iff ILLEGAL_CONTROL_CHARS_def)
  moreover have "?m \<noteq> []" using assms(1) by simp
  moreover have "hd ?m \<notin> {46, 32}" using assms(1,4,5) by (simp add: hd_map)
  moreover have "last ?m \<notin> {46, 32}" using assms(1,6,7) by (simp add: last_map)
  ultimately have core: "sanitized_core name = ?m"
    unfolding sanitized_core_def by (simp add: strip_by_id)
  show ?thesis
    using assms(1,2) by (simp add: sanitize_filename_default_unfold core beta)
qed

text \<open>The theorem at the name \<open>"a/b"\<close>, which satisfies its hypotheses.\<close>

theorem sanitize_variants_agree_witness:
  "sanitize_filename_default (asc ''a/b'') = sanitize_filename_beta (asc ''a/b'')"
  using sanitize_variants_agree [of "asc ''a/b''"]
  by (simp add: asc_def ILLEGAL_CONTROL_CHARS_def)

text \<open>
  The claim as written fails at the empty name: the DEBUG variant answers \<open>"unnamed"\<close>,
  the VDDT-beta variant the empty string.
\<close>

theorem sanitize_variants_differ_counterexample:
  "sanitize_filename_default [] = asc ''unnamed'' \<and> sanitize_filename_beta [] = [] \<and>
   sanitize_filename_default [] \<noteq> sanitize_filename_beta []"
  by (simp add: sanitize_filename_default_def sanitize_filename_beta_def re_sub_class_def
      unnamed_def asc_def)

subsection \<open>Splitting and joining\<close>

lemma split_on_ne: "split_on sep s \<noteq> []"
  by (induction s) (auto split: list.splits)

lemma join_split: "join_with [sep] (split_on sep s) = s"
proof (induction s)
  case Nil
  then show ?case by simp
next
  case (Cons c cs)
  obtain p ps where ps: "split_on sep cs = p # ps"
    using split_on_ne [of sep cs] by (cases "split_on sep cs") auto
  show ?case
    using Cons ps by (cases ps) auto
qed

lemma hd_split_on: "hd (split_on sep s) = takeWhile (\<lambda>c. c \<noteq> sep) s"
  by (induction s) (auto split: list.splits simp: split_on_ne)

lemma split_on_absent: "sep \<notin> set s \<Longrightarrow> split_on sep s = [s]"
  by (induction s) (auto split: list.splits)

lemma last_n_all: "length xs \<le> k \<Longrightarrow> last_n k xs = xs"
  by (simp add: last_n_def)

subsection \<open>Domain extraction\<close>

lemma asc_dot: "asc ''.'' = [46]"
  by (simp add: asc_def)

text \<open>
  On a network location without user information (no \<open>@\<close>) and without a bracketed
  address (no \<open>[\<close>) the code does what the claim says: it returns the host, without the
  port and a leading \<open>www.\<close>, reduced to two or three labels.
\<close>

lemma extract_domain_plain_netloc:
  assumes "64 \<notin> set netloc" and "91 \<notin> set netloc"
  shows "extract_domain_netloc netloc = reduced_host (host_of_netloc netloc)"
proof -
  have host: "host_of_netloc netloc = takeWhile (\<lambda>c. c \<noteq> 58) netloc"
    using assms(1) by (simp add: host_of_netloc_def split_on_absent)
  have d1: "(if 58 \<in> set netloc then hd (split_on 58 netloc) else netloc)
              = takeWhile (\<lambda>c. c \<noteq> 58) netloc"
  proof (cases "58 \<in> set netloc")
    case True
    then show ?thesis by (simp add: hd_split_on)
  next
    case False
    then have eq: "takeWhile (\<lambda>c. c \<noteq> 58) netloc = netloc"
      by (intro takeWhile_eq_all_conv [THEN iffD2]) auto
    show ?thesis unfolding eq using False by simp
  qed
  define h where "h = (if py_startswith (asc ''www.'') (takeWhile (\<lambda>c. c \<noteq> 58) netloc)
                       then drop 4 (takeWhile (\<lambda>c. c \<noteq> 58) netloc)
                       else takeWhile (\<lambda>c. c \<noteq> 58) netloc)"
  define parts where "parts = split_on 46 h"
  have short: "length parts \<le> 2 \<Longrightarrow> join_with [46] (last_n k parts) = h" if "2 \<le> k" for k
    using that by (simp add: last_n_all parts_def join_split)
  have code: "extract_domain_netloc netloc =
     (let d = (if length parts > 2
               then (if parts ! (length parts - 2) \<in> set second_level_labels
                     then join_with [46] (last_n 3 parts) else join_with [46] (last_n 2 parts))
               else h)
      in if d = [] then None else Some d)"
    unfolding extract_domain_netloc_def d1 Let_def h_def parts_def asc_dot by simp
  have spec: "reduced_host (host_of_netloc netloc) =
     (let d = join_with [46] (last_n (if length parts \<ge> 2 \<and>
                 parts ! (length parts - 2) \<in> set second_level_labels then 3 else 2) parts)
      in if d = [] then None else Some d)"
    unfolding reduced_host_def host Let_def h_def parts_def asc_dot by simp
  show ?thesis
  proof (cases "length parts > 2")
    case True
    then show ?thesis unfolding code spec by simp
  next
    case False
    then have "length parts \<le> 2" by simp
    then show ?thesis unfolding code spec using short [of 2] short [of 3] False
      by (simp add: Let_def)
  qed
qed

text \<open>
  Claim C8 at the URL \<^verbatim>\<open>https://user:pw@www.bilibili.com/video\<close>, whose network location
  is \<^verbatim>\<open>user:pw@www.bilibili.com\<close>: the host is \<open>www.bilibili.com\<close> and the claim asks for
  \<open>bilibili.com\<close>, but the code cuts at the first colon and returns the user name.
\<close>

theorem extract_domain_userinfo:
  "extract_domain (\<lambda>url. Inr (asc ''user:pw@www.bilibili.com''))
       (asc ''https://user:pw@www.bilibili.com/video'') = Some (asc ''user'') \<and>
   reduced_host (host_of_netloc (asc ''user:pw@www.bilibili.com'')) = Some (asc ''bilibili.com'')"
  by (simp add: extract_domain_def extract_domain_netloc_def reduced_host_def host_of_netloc_def
      asc_def py_startswith_def last_n_def second_level_labels_def Let_def)

subsection \<open>Batch mode\<close>

lemma read_links_filter: "read_links lines = map py_strip (filter kept_line lines)"
proof (induction lines)
  case Nil
  then show ?case by simp
next
  case (Cons l ls)
  have "py_startswith (asc ''#'') l \<longleftrightarrow> \<not> (case l of [] \<Rightarrow> True | c # t \<Rightarrow> c \<noteq> 35)"
    by (cases l) (auto simp: py_startswith_def asc_def)
  with Cons show ?case by (simp add: kept_line_def)
qed

lemma downloads_append: "downloads (xs @ ys) = downloads xs @ downloads ys"
  by (induction xs rule: downloads.induct) auto

lemma downloads_download_all:
  "downloads (download_all handle links) = take (Suc (length (takeWhile handle links))) links"
  by (induction links) (auto simp: downloads_append)

lemma downloads_batch_loop: "downloads (batch_loop engine_download links) = links"
  by (induction links) (auto simp: downloads_append)

text \<open>
  Claim C7. The link list of batch mode is, in file order, the stripped form of exactly
  those lines that are not empty after stripping and do not start with \<open>#\<close>. The
  command-line batch mode hands these links to the download one after the other, in this
  order, up to and including the first one on which the download raises; the batch mode
  of the text user interface, once a mode is chosen and the engine is set up, hands all of
  them to the engine, in this order. When no line is left, neither batch mode starts a
  download, and each shows an error or a warning.
\<close>

theorem batch_links:
  "read_links lines = map py_strip (filter kept_line lines) \<and>
   downloads (main_batch handle (Inr lines)) =
     take (Suc (length (takeWhile handle (map py_strip (filter kept_line lines)))))
       (map py_strip (filter kept_line lines)) \<and>
   downloads (on_batch_download (Some dl_mode) (Some engine_download) (Inr lines))
     = map py_strip (filter kept_line lines) \<and>
   (filter kept_line lines = [] \<longrightarrow>
      downloads (main_batch handle (Inr lines)) = [] \<and>
      list_ex is_message (main_batch handle (Inr lines)) \<and>
      downloads (on_batch_download mode engine (Inr lines)) = [] \<and>
      list_ex is_message (on_batch_download mode engine (Inr lines)))"
  by (simp add: read_links_filter main_batch_def on_batch_download_def batch_task_def
      downloads_append downloads_download_all downloads_batch_loop)

text \<open>The theorem at a file of one comment line and one blank line.\<close>

theorem batch_links_witness:
  "filter kept_line [asc ''# list'' @ [10], [10]] = [] \<and>
   main_batch (\<lambda>u. True) (Inr [asc ''# list'' @ [10], [10]]) = [Error_message] \<and>
   on_batch_download (Some True) (Some (\<lambda>u. True)) (Inr [asc ''# list'' @ [10], [10]])
     = [Warning_message]"
  using batch_links [of "[asc ''# list'' @ [10], [10]]" "\<lambda>u. True" True "\<lambda>u. True"
      "Some True" "Some (\<lambda>u. True)"]
  by (simp add: main_batch_def on_batch_download_def kept_line_def py_strip_def strip_by_def
      lstrip_by_def rstrip_by_def py_isspace_def asc_def py_startswith_def)

text \<open>
  A file of four lines: two links, a comment and a blank line. Both batch modes download
  the two links, in the order of the file.
\<close>

lemma batch_links_example:
  "read_links [asc ''https://a.example/v'' @ [10], asc ''# note'' @ [10], asc ''  '' @ [10],
               asc '' https://b.example/w ''] =
     [asc ''https://a.example/v'', asc ''https://b.example/w'']"
  by (simp add: py_strip_def strip_by_def lstrip_by_def rstrip_by_def py_isspace_def asc_def
      py_startswith_def)

lemma batch_downloads_example:
  "downloads (main_batch (\<lambda>u. True)
      (Inr [asc ''https://a.example/v'' @ [10], asc ''# note'' @ [10], asc ''  '' @ [10],
            asc '' https://b.example/w ''])) =
     [asc ''https://a.example/v'', asc ''https://b.example/w''] \<and>
   downloads (on_batch_download (Some True) (Some (\<lambda>u. False))
      (Inr [asc ''https://a.example/v'' @ [10], asc ''# note'' @ [10], asc ''  '' @ [10],
            asc '' https://b.example/w ''])) =
     [asc ''https://a.example/v'', asc ''https://b.example/w'']"
  unfolding main_batch_def on_batch_download_def sum.case Let_def batch_links_example
  by (simp add: batch_task_def downloads_append downloads_download_all downloads_batch_loop)

subsection \<open>Configuration round trip\<close>

lemma download_roundtrip:
  "set_items setattr_download (d0, False) (asdict_download d) = Inr (d, False)"
  by (simp add: asdict_download_def setattr_download_def setattr_special_def asc_def)

lemma transcode_roundtrip: "set_items setattr_transcode t0 (asdict_transcode t) = Inr t"
  by (simp add: asdict_transcode_def setattr_transcode_def setattr_special_def asc_def)

lemma network_roundtrip: "set_items setattr_network n0 (asdict_network n) = Inr n"
  by (simp add: asdict_network_def setattr_network_def setattr_special_def asc_def)

lemma ui_roundtrip: "set_items setattr_ui u0 (asdict_ui u) = Inr u"
  by (simp add: asdict_ui_def setattr_ui_def setattr_special_def asc_def)

lemma to_dict_lookup:
  "map_of (to_dict c) (asc ''download'') = Some (PDict (asdict_download (download c)))"
  "map_of (to_dict c) (asc ''transcode'') = Some (PDict (asdict_transcode (transcode c)))"
  "map_of (to_dict c) (asc ''network'') = Some (PDict (asdict_network (network c)))"
  "map_of (to_dict c) (asc ''ui'') = Some (PDict (asdict_ui (ui c)))"
  by (simp_all add: to_dict_def asc_def)

lemma from_dict_to_dict:
  "from_dict (to_dict c) = Inr (c\<lparr>version := PStr (asc ''2.1.0'')\<rparr>)"
  by (simp add: from_dict_def load_section_def to_dict_lookup download_roundtrip
      transcode_roundtrip network_roundtrip ui_roundtrip VDDTConfig_default_def)

text \<open>
  Claim C5, as amended. For every configuration \<open>c\<close>, \<open>from_dict (to_dict c)\<close> returns a
  configuration whose download, transcode, network and ui sections are those of \<open>c\<close>
  and whose version is the default \<open>2.1.0\<close>: the round trip is the identity exactly on
  the configurations that carry the default version.
\<close>

theorem config_roundtrip:
  "from_dict (to_dict c) = Inr (c\<lparr>version := PStr (asc ''2.1.0'')\<rparr>) \<and>
   (from_dict (to_dict c) = Inr c \<longleftrightarrow> version c = PStr (asc ''2.1.0''))"
proof -
  have "c\<lparr>version := PStr (asc ''2.1.0'')\<rparr> = c \<longleftrightarrow> version c = PStr (asc ''2.1.0'')"
    by (cases c) auto
  then show ?thesis by (simp add: from_dict_to_dict)
qed

text \<open>The theorem at the default configuration.\<close>

theorem config_roundtrip_witness:
  "version VDDTConfig_default = PStr (asc ''2.1.0'') \<and>
   from_dict (to_dict VDDTConfig_default) = Inr VDDTConfig_default"
  using config_roundtrip [of VDDTConfig_default]
  by (simp add: VDDTConfig_default_def)

text \<open>
  The claim as written fails on the version field: a configuration with version \<open>1.0.0\<close>
  comes back with version \<open>2.1.0\<close>.
\<close>

theorem config_roundtrip_version_counterexample:
  "from_dict (to_dict (VDDTConfig_default\<lparr>version := PStr (asc ''1.0.0'')\<rparr>))
     \<noteq> Inr (VDDTConfig_default\<lparr>version := PStr (asc ''1.0.0'')\<rparr>)"
  by (simp add: from_dict_to_dict VDDTConfig_default_def asc_def)

text \<open>A dictionary whose section entry is no dictionary makes \<open>from_dict\<close> raise.\<close>

lemma from_dict_not_a_dict:
  "from_dict [(asc ''download'', PInt 3)] = Inl AttributeError"
  by (simp add: from_dict_def load_section_def asc_def)

text \<open>A section that assigns to \<open>__class__\<close> makes \<open>from_dict\<close> raise \<open>TypeError\<close>.\<close>

lemma from_dict_class_key:
  "from_dict [(asc ''ui'', PDict [(asc ''__class__'', PInt 1)])] = Inl TypeError"
  by (simp add: from_dict_def load_section_def setattr_ui_def setattr_special_def asc_def)

text \<open>
  A section that assigns a dictionary to \<open>__dict__\<close> replaces the fields: those without
  an entry fall back to the defaults of the class.
\<close>

lemma from_dict_dict_key:
  "from_dict [(asc ''ui'', PDict [(asc ''verbose'', PBool True),
                                  (asc ''__dict__'', PDict [(asc ''color_output'', PBool False)])])]
     = Inr (VDDTConfig_default\<lparr>ui := \<lparr> progress_bar_length = PInt 40, verbose = PBool False,
                                          color_output = PBool False \<rparr>\<rparr>)"
  by (simp add: from_dict_def load_section_def setattr_ui_def setattr_special_def entry_or_def
      VDDTConfig_default_def UIConfig_default_def asc_def)

subsection \<open>Unique file paths\<close>

lemma nat_of_digits_str: "nat_of_digits (str_nat n) = n"
proof (induction n rule: str_nat.induct)
  case (1 n)
  show ?case
  proof (cases "n < 10")
    case True
    then show ?thesis by (simp add: str_nat.simps [of n] nat_of_digits_def)
  next
    case False
    then have "nat_of_digits (str_nat n) = 10 * nat_of_digits (str_nat (n div 10)) + n mod 10"
      by (simp add: str_nat.simps [of n] nat_of_digits_def)
    with 1 False show ?thesis by simp
  qed
qed

lemma str_nat_inj: "str_nat j = str_nat k \<Longrightarrow> j = k"
  by (metis nat_of_digits_str)

lemma candidate_shape:
  "candidate directory name ext k =
     (if name \<noteq> [] \<and> hd name = 47 then [] else dir_prefix directory)
       @ name @ [95] @ str_nat k @ ext"
  by (cases name) (auto simp: candidate_def path_join_def py_startswith_def dir_prefix_def)

lemma candidate_inj: "candidate directory name ext j = candidate directory name ext k \<Longrightarrow> j = k"
  by (simp add: candidate_shape str_nat_inj)

lemma candidate_free:
  "\<exists>k. 1 \<le> k \<and> k \<le> length fs + 1 \<and> candidate directory name ext k \<notin> set fs"
proof (rule ccontr)
  assume "\<not> ?thesis"
  then have sub: "candidate directory name ext ` {1..length fs + 1} \<subseteq> set fs" by auto
  have "inj_on (candidate directory name ext) {1..length fs + 1}"
    by (rule inj_onI) (rule candidate_inj)
  then have "card (candidate directory name ext ` {1..length fs + 1}) = length fs + 1"
    by (simp add: card_image)
  moreover have "card (candidate directory name ext ` {1..length fs + 1}) \<le> card (set fs)"
    using sub by (intro card_mono) auto
  moreover have "card (set fs) \<le> length fs" by (rule card_length)
  ultimately show False by simp
qed

lemma unique_loop_finds:
  assumes "candidate directory name ext k \<notin> set fs" and "c \<le> k"
    and "\<forall>j. c \<le> j \<and> j < k \<longrightarrow> candidate directory name ext j \<in> set fs"
    and "fp \<in> set fs"
  shows "unique_loop fs directory name ext fp c = Some (candidate directory name ext k)"
  using assms
proof (induction "k - c" arbitrary: c fp)
  case 0
  then have "c = k" by simp
  with 0 show ?case by (simp add: unique_loop.simps [of fs directory name ext])
next
  case (Suc d)
  then have "c < k" by simp
  with Suc.prems have in_fs: "candidate directory name ext c \<in> set fs" by simp
  have "unique_loop fs directory name ext (candidate directory name ext c) (c + 1)
          = Some (candidate directory name ext k)"
    using Suc.hyps(2) Suc.prems \<open>c < k\<close> in_fs by (intro Suc.hyps(1)) auto
  with Suc.prems(4) show ?case by (subst unique_loop.simps) simp
qed

lemma splitext_append: "fst (splitext p) @ snd (splitext p) = p"
  by (simp add: splitext_def Let_def)

lemma path_join_relative:
  "\<not> py_startswith [47] b \<Longrightarrow> path_join directory b = dir_prefix directory @ b"
  by (simp add: path_join_def dir_prefix_def)

lemma str_nat_digits: "set (str_nat n) \<subseteq> {48..57}"
proof (induction n rule: str_nat.induct)
  case (1 n)
  show ?case
  proof (cases "n < 10")
    case True
    then show ?thesis by (simp add: str_nat.simps [of n])
  next
    case False
    have "n mod 10 < 10" by simp
    then have "48 + n mod 10 \<in> {48..57}" by simp
    with 1 False show ?thesis by (simp add: str_nat.simps [of n])
  qed
qed

lemma file_name_joined:
  assumes "is_file_name f"
  shows "path_join directory f = dir_prefix directory @ f"
    and "inside_dir directory (path_join directory f)"
proof -
  from assms obtain c cs where f: "f = c # cs" and c: "c \<noteq> 47"
    by (cases f) (auto simp: is_file_name_def)
  then have "\<not> py_startswith [47] f" by (simp add: py_startswith_def)
  then show joined: "path_join directory f = dir_prefix directory @ f"
    by (rule path_join_relative)
  show "inside_dir directory (path_join directory f)"
    unfolding joined inside_dir_def using assms by simp
qed

lemma candidate_file_name:
  assumes "is_file_name filename"
  shows "is_file_name (fst (splitext filename) @ [95] @ str_nat k @ snd (splitext filename))"
proof -
  let ?name = "fst (splitext filename)" and ?ext = "snd (splitext filename)"
  have "set ?name \<union> set ?ext = set filename"
    using splitext_append [of filename] by (metis set_append)
  then have parts: "47 \<notin> set ?name" "47 \<notin> set ?ext"
    using assms by (auto simp: is_file_name_def)
  have digits: "47 \<notin> set (str_nat k)"
    using str_nat_digits [of k] by auto
  have "95 \<in> set (?name @ [95] @ str_nat k @ ?ext)" by simp
  moreover have "95 \<notin> set (asc ''.'')" "95 \<notin> set (asc ''..'')"
    by (simp_all add: asc_def)
  ultimately have "?name @ [95] @ str_nat k @ ?ext \<noteq> asc ''.''"
    "?name @ [95] @ str_nat k @ ?ext \<noteq> asc ''..''"
    by metis+
  with parts digits show ?thesis
    by (simp add: is_file_name_def)
qed

text \<open>
  Claim C10. For every file system, directory and file name, \<open>get_unique_filepath\<close>
  returns, and the path it returns does not exist and lies inside the directory; it is
  the joined path when that is free, and otherwise the first free path among
  \<open>name_1 + ext\<close>, \<open>name_2 + ext\<close>, ... joined to the directory, where \<open>name + ext\<close>
  is the file name, so the extension is kept.
\<close>

theorem get_unique_filepath_free:
  assumes "is_file_name filename"
  shows
   "\<exists>p. get_unique_filepath fs directory filename = Some p \<and> p \<notin> set fs \<and>
      inside_dir directory p \<and>
      (path_join directory filename \<notin> set fs \<longrightarrow> p = path_join directory filename) \<and>
      (path_join directory filename \<in> set fs \<longrightarrow>
         (\<exists>k\<ge>1. p = path_join directory
                      (fst (splitext filename) @ [95] @ str_nat k @ snd (splitext filename)) \<and>
                (\<forall>j. 1 \<le> j \<and> j < k \<longrightarrow>
                   path_join directory
                      (fst (splitext filename) @ [95] @ str_nat j @ snd (splitext filename)) \<in> set fs))) \<and>
      fst (splitext filename) @ snd (splitext filename) = filename"
proof (cases "path_join directory filename \<in> set fs")
  case False
  then show ?thesis
    using file_name_joined(2) [OF assms, of directory]
    by (auto simp: get_unique_filepath_def splitext_append)
next
  case True
  define name where "name = fst (splitext filename)"
  define ext where "ext = snd (splitext filename)"
  let ?cand = "candidate directory name ext"
  define k where "k = (LEAST k. 1 \<le> k \<and> ?cand k \<notin> set fs)"
  have ex: "\<exists>k. 1 \<le> k \<and> ?cand k \<notin> set fs"
    using candidate_free [of fs directory name ext] by blast
  then have k: "1 \<le> k" "?cand k \<notin> set fs"
    unfolding k_def by (metis (mono_tags, lifting) LeastI_ex)+
  have below: "\<forall>j. 1 \<le> j \<and> j < k \<longrightarrow> ?cand j \<in> set fs"
    unfolding k_def using not_less_Least by blast
  have loop: "unique_loop fs directory name ext (path_join directory filename) 1 = Some (?cand k)"
    using k below True by (intro unique_loop_finds) auto
  have res: "get_unique_filepath fs directory filename = Some (?cand k)"
    using True loop by (simp add: get_unique_filepath_def name_def ext_def case_prod_beta)
  have inside: "inside_dir directory (?cand k)"
    unfolding candidate_def name_def ext_def
    by (rule file_name_joined(2) [OF candidate_file_name [OF assms]])
  show ?thesis
    using res k below True inside
    unfolding candidate_def name_def ext_def
    by (intro exI [of _ "?cand k"]) (auto simp: splitext_append candidate_def name_def ext_def)
qed

text \<open>The theorem at a directory where \<open>a.mp4\<close> and \<open>a_1.mp4\<close> exist.\<close>

theorem get_unique_filepath_free_witness:
  "is_file_name (asc ''a.mp4'') \<and>
   path_join (asc ''/t'') (asc ''a.mp4'') \<in> set [asc ''/t/a.mp4'', asc ''/t/a_1.mp4''] \<and>
   get_unique_filepath [asc ''/t/a.mp4'', asc ''/t/a_1.mp4''] (asc ''/t'') (asc ''a.mp4'')
     = Some (asc ''/t/a_2.mp4'') \<and>
   inside_dir (asc ''/t'') (asc ''/t/a_2.mp4'')"
proof -
  have name: "is_file_name (asc ''a.mp4'')"
    by (simp add: is_file_name_def asc_def)
  have taken: "path_join (asc ''/t'') (asc ''a.mp4'') \<in> set [asc ''/t/a.mp4'', asc ''/t/a_1.mp4'']"
    by code_simp
  have result: "get_unique_filepath [asc ''/t/a.mp4'', asc ''/t/a_1.mp4''] (asc ''/t'') (asc ''a.mp4'')
     = Some (asc ''/t/a_2.mp4'')"
    by code_simp
  show ?thesis
    using get_unique_filepath_free
      [OF name, of "[asc ''/t/a.mp4'', asc ''/t/a_1.mp4'']" "asc ''/t''"]
      name taken result
    by simp
qed

text \<open>
  What the hypothesis keeps out: a second argument that is a path and no file name.
  \<open>os.path.join\<close> drops the directory before an absolute path, and a path through
  \<open>..\<close> leaves the directory.
\<close>

lemma path_join_not_a_file_name:
  "path_join (asc ''/tmp'') (asc ''/x'') = asc ''/x'' \<and> \<not> is_file_name (asc ''/x'') \<and>
   \<not> inside_dir (asc ''/tmp'') (asc ''/x'') \<and>
   \<not> is_file_name (asc ''../x'') \<and> \<not> inside_dir (asc ''/tmp'') (asc ''/tmp/../x'')"
  by (simp add: path_join_def py_startswith_def is_file_name_def inside_dir_def dir_prefix_def
      asc_def)

subsection \<open>Cookie files\<close>















lemma example_lines:
  "join_with [10] (netscape_header # map (cookie_line (asc ''bilibili.com'')) [asc ''a=1'', asc ''b = 2''])
     = asc ''# Netscape HTTP Cookie File'' @ [10] @
       asc ''.bilibili.com'' @ [9] @ asc ''TRUE'' @ [9] @ asc ''/'' @ [9] @ asc ''FALSE'' @ [9] @ asc ''0''
         @ [9] @ asc ''a'' @ [9] @ asc ''1'' @ [10] @
       asc ''.bilibili.com'' @ [9] @ asc ''TRUE'' @ [9] @ asc ''/'' @ [9] @ asc ''FALSE'' @ [9] @ asc ''0''
         @ [9] @ asc ''b'' @ [9] @ asc ''2''"
  by (simp add: netscape_header_def cookie_line_def py_strip_def strip_by_def
      lstrip_by_def rstrip_by_def py_isspace_def asc_def)



subsection \<open>Engine failures\<close>

text \<open>A function wrapped by \<open>retry_on_error\<close> that always fails is called once more than the bound.\<close>

lemma retry_from_failing:
  "(\<And>a. func a = Inl e) \<Longrightarrow> is_Exception e \<Longrightarrow>
   retry_from attempt left func = (Inl e, attempt + left + 1)"
  by (induction left arbitrary: attempt) auto

lemma retry_on_error_failing:
  "(\<And>a. func a = Inl e) \<Longrightarrow> is_Exception e \<Longrightarrow>
     retry_on_error retries func = (Inl e, retries + 1)"
  by (simp add: retry_on_error_def retry_from_failing)

lemma download_opts_retries:
  "download_opts config ydl_opts outtmpl format_id hook (asc ''retries'')
     = Some (max_retries (download config))"
  "download_opts config ydl_opts outtmpl format_id hook (asc ''fragment_retries'')
     = Some (max_retries (download config))"
  by (simp_all add: download_opts_def asc_def)

lemma get_format_lists_calls:
  "filter is_engine_call (snd (get_format_lists config extract_info build url ydl_opts))
     = [Engine_extract_info (get_base_opts config ++ ydl_opts) url]"
  by (simp add: get_format_lists_def Let_def split: sum.splits engine_exc.splits option.splits)

lemma download_calls:
  "filter is_engine_call
     (snd (DownloaderCore_download config engine_download url format_id outtmpl hook ydl_opts))
     = [Engine_download (download_opts config ydl_opts outtmpl format_id hook) url]"
  by (simp add: DownloaderCore_download_def Let_def split: sum.splits engine_exc.splits)

lemma get_format_lists_failure:
  assumes "is_Exception e"
    and "extract_info (get_base_opts config ++ ydl_opts) url = Inl e"
  shows "fst (get_format_lists config extract_info build url ydl_opts) = Inr (None, [])"
    and "Printed_error \<in> set (snd (get_format_lists config extract_info build url ydl_opts))"
  using assms by (cases e; simp add: get_format_lists_def Let_def)+

lemma download_failure:
  assumes "is_Exception e"
    and "engine_download (download_opts config ydl_opts outtmpl format_id hook) url = Inl e"
  shows "fst (DownloaderCore_download config engine_download url format_id outtmpl hook ydl_opts)
           = Inr False"
    and "Printed_error \<in> set (snd (DownloaderCore_download config engine_download url format_id
           outtmpl hook ydl_opts))"
  using assms by (cases e; simp add: DownloaderCore_download_def Let_def)+

text \<open>
  Claim C2. When the engine raises an error (an exception of class \<open>Exception\<close>),
  \<open>get_format_lists\<close> returns \<open>(None, [])\<close> and \<open>download\<close> returns \<open>False\<close>, each after
  printing an error, so the error does not leave the method; whatever the engine does,
  each method calls the engine's entry point exactly once, with no retry of its own; and
  \<open>download\<close> hands the configured number of retries to the engine in the options
  \<open>retries\<close> and \<open>fragment_retries\<close>.
\<close>

theorem engine_failures_contained:
  assumes "is_Exception e"
  shows
   "(extract_info (get_base_opts config ++ ydl_opts) url = Inl e \<longrightarrow>
       fst (get_format_lists config extract_info build url ydl_opts) = Inr (None, []) \<and>
       Printed_error \<in> set (snd (get_format_lists config extract_info build url ydl_opts))) \<and>
    (engine_download (download_opts config ydl_opts outtmpl format_id hook) url = Inl e \<longrightarrow>
       fst (DownloaderCore_download config engine_download url format_id outtmpl hook ydl_opts)
         = Inr False \<and>
       Printed_error \<in> set (snd (DownloaderCore_download config engine_download url format_id
         outtmpl hook ydl_opts))) \<and>
    filter is_engine_call (snd (get_format_lists config extract_info build url ydl_opts))
      = [Engine_extract_info (get_base_opts config ++ ydl_opts) url] \<and>
    filter is_engine_call
      (snd (DownloaderCore_download config engine_download url format_id outtmpl hook ydl_opts))
      = [Engine_download (download_opts config ydl_opts outtmpl format_id hook) url] \<and>
    download_opts config ydl_opts outtmpl format_id hook (asc ''retries'')
      = Some (max_retries (download config)) \<and>
    download_opts config ydl_opts outtmpl format_id hook (asc ''fragment_retries'')
      = Some (max_retries (download config))"
  using assms get_format_lists_failure [of e extract_info config ydl_opts url build]
    download_failure [of e engine_download config ydl_opts outtmpl format_id hook url]
  by (simp add: get_format_lists_calls download_calls download_opts_retries)

text \<open>The theorem at an engine that raises \<open>DownloadError\<close>.\<close>

theorem engine_failures_contained_witness:
  "is_Exception DownloadError \<and>
   fst (get_format_lists VDDTConfig_default (\<lambda>opts url. Inl DownloadError)
          (\<lambda>info :: unit. Inr ((), [] :: unit list)) (asc ''https://a.example/v'') Map.empty)
     = Inr (None, []) \<and>
   fst (DownloaderCore_download VDDTConfig_default (\<lambda>opts url. Inl DownloadError)
          (asc ''https://a.example/v'') (PStr (asc ''best'')) (PStr (asc ''out'')) PNone Map.empty)
     = Inr False"
  using engine_failures_contained [of DownloadError "\<lambda>opts url. Inl DownloadError"
      VDDTConfig_default Map.empty "asc ''https://a.example/v''"
      "\<lambda>info :: unit. Inr ((), [] :: unit list)" "\<lambda>opts url. Inl DownloadError"
      "PStr (asc ''out'')" "PStr (asc ''best'')" PNone]
  by simp

text \<open>
  \<open>KeyboardInterrupt\<close> is not an \<open>Exception\<close>: \<open>download\<close> catches it by name,
  \<open>get_format_lists\<close> lets it pass.
\<close>

lemma get_format_lists_interrupt:
  "fst (get_format_lists config (\<lambda>opts url. Inl KeyboardInterrupt) build url ydl_opts)
     = Inl KeyboardInterrupt"
  by (simp add: get_format_lists_def Let_def)

subsection \<open>Selected indices of the text user interface\<close>

lemma mod_in_range: "0 < n \<Longrightarrow> 0 \<le> (x::int) mod n \<and> x mod n < n"
  by simp

lemma py_index_in_range:
  "0 \<le> i \<Longrightarrow> i < int (length xs) \<Longrightarrow> py_index xs i = Inr (xs ! nat i)"
  by (simp add: py_index_def)

text \<open>
  \<open>SelectDialog\<close> keeps its index in range: every key leaves \<open>selected\<close> within the
  options, and no key makes the dialog raise.
\<close>

lemma select_key_inv:
  assumes "select_inv d"
  shows "\<exists>d' left. select_key d key = Inr (d', left) \<and> select_inv d' \<and> options d' = options d"
proof -
  from assms have n: "0 < int (length (options d))" and sel: "0 \<le> selected d"
    "selected d < int (length (options d))"
    by (auto simp: select_inv_def)
  have digit: "49 \<le> key \<Longrightarrow> key - 49 < int (length (options d)) \<Longrightarrow>
      py_index (options d) (key - 49) = Inr (options d ! nat (key - 49))"
    by (simp add: py_index_in_range)
  show ?thesis
    using n sel digit
    by (auto simp: select_key_def Let_def select_inv_def py_index_in_range)
qed

lemma select_show_inv:
  "select_inv d \<Longrightarrow> \<exists>d'. select_show d keys = Inr d' \<and> select_inv d' \<and> options d' = options d"
proof (induction keys arbitrary: d)
  case Nil
  then show ?case by simp
next
  case (Cons key keys)
  from select_key_inv [OF Cons.prems, of key]
  obtain d1 left where step: "select_key d key = Inr (d1, left)" "select_inv d1"
    "options d1 = options d" by blast
  show ?case
  proof (cases left)
    case True
    with step show ?thesis by simp
  next
    case False
    with step Cons.IH [of d1] show ?thesis by auto
  qed
qed

lemma select_init_inv: "opts \<noteq> [] \<Longrightarrow> select_inv (select_init h opts)"
  by (simp add: select_inv_def select_init_def)

text \<open>In the main menu an arrow key brings the index into the range of the last draw pass.\<close>

lemma handle_input_arrow_in_range:
  assumes "selectable_indices app = Some selectable" and "selectable \<noteq> []"
    and "key = KEY_UP \<or> key = KEY_DOWN"
  shows "\<exists>app'. handle_input app key = Inr (app', No_call) \<and> menu_inv app'"
  using assms
  by (auto simp: handle_input_def menu_inv_def KEY_UP_def KEY_DOWN_def Let_def)

text \<open>
  The file browser keeps its index in range as long as every directory can be listed:
  a successful refresh sets \<open>selected\<close> to 0.
\<close>

lemma refresh_items_listed:
  "listdir os (current_path d) = Inr entries \<Longrightarrow> browser_inv (refresh_items os d)"
  by (simp add: refresh_items_def browser_inv_def Let_def)

lemma browser_key_inv:
  assumes "browser_inv d" and "\<And>p. \<exists>entries. listdir os p = Inr entries"
  shows "\<exists>d' r. browser_key os d key = Inr (d', r) \<and> browser_inv d'"
proof -
  from assms(1) have sel: "0 < int (length (items d))" "0 \<le> fb_selected d"
    "fb_selected d < int (length (items d))"
    by (auto simp: browser_inv_def)
  have refreshed: "browser_inv (refresh_items os (d\<lparr>current_path := p\<rparr>))" for p
    using assms(2) [of p] refresh_items_listed [of os "d\<lparr>current_path := p\<rparr>"] by auto
  show ?thesis
    using sel assms(1) refreshed
    by (auto simp: browser_key_def Let_def py_index_in_range browser_inv_def)
qed

text \<open>The example directory tree, step by step.\<close>

lemma example_sorted: "sort [asc ''locked'', asc ''a''] = [asc ''a'', asc ''locked'']"
  by (simp add: asc_def)

lemma example_start:
  "browser_init example_os 20 (asc ''/v'') =
     \<lparr> fb_height = 20, current_path = asc ''/v'', fb_selected = 0,
       items = [parent_item, ([128193, 32] @ asc ''a'' @ [47], asc ''a''),
                ([128193, 32] @ asc ''locked'' @ [47], asc ''locked'')],
       fb_scroll_offset = 0 \<rparr>"
proof -
  have paths: "path_join (asc ''/v'') (asc ''locked'') = asc ''/v/locked''"
    "path_join (asc ''/v'') (asc ''a'') = asc ''/v/a''"
    by (simp_all add: path_join_def py_startswith_def asc_def)
  have "filter (\<lambda>e. isdir example_os (path_join (asc ''/v'') e)) [asc ''locked'', asc ''a'']
          = [asc ''locked'', asc ''a'']"
    by (simp add: paths example_os_def)
  moreover have "filter (\<lambda>e. isfile example_os (path_join (asc ''/v'') e)) [asc ''locked'', asc ''a''] = []"
    by (simp add: example_os_def)
  moreover have "listdir example_os (asc ''/v'') = Inr [asc ''locked'', asc ''a'']"
    by (simp add: example_os_def)
  moreover have "abspath example_os (asc ''/v'') = asc ''/v''"
    by (simp add: example_os_def)
  moreover have "sort ([] :: ustr list) = []"
    by simp
  ultimately show ?thesis
    by (simp add: browser_init_def refresh_items_def example_sorted del: sort_key_simps)
qed

lemma example_listing_refused: "listdir example_os (asc ''/v/locked'') = Inl IOError"
  by (simp add: example_os_def asc_def)

lemma example_locked_isdir:
  "isdir example_os (abspath example_os (path_join (asc ''/v'') (asc ''locked'')))"
  by (simp add: example_os_def path_join_def py_startswith_def asc_def)

lemma example_browse:
  "browser_show example_os (browser_init example_os 20 (asc ''/v'')) [KEY_DOWN, KEY_DOWN, 10] =
     Inr (\<lparr> fb_height = 20, current_path = asc ''/v/locked'', fb_selected = 2,
             items = [parent_item, no_access_item], fb_scroll_offset = 0 \<rparr>, None)"
proof -
  have path: "abspath example_os (path_join (asc ''/v'') (asc ''locked'')) = asc ''/v/locked''"
    by (simp add: example_os_def path_join_def py_startswith_def asc_def)
  have nonempty: "asc ''locked'' \<noteq> []"
    by (simp add: asc_def)
  show ?thesis
    unfolding example_start
    using example_locked_isdir nonempty
    by (simp add: browser_key_def KEY_DOWN_def KEY_UP_def is_enter_def py_index_def
        refresh_items_def path example_listing_refused)
qed

lemma example_browse_enter:
  "browser_show example_os (browser_init example_os 20 (asc ''/v'')) [KEY_DOWN, KEY_DOWN, 10, 10]
     = Inl IndexError"
proof -
  have path: "abspath example_os (path_join (asc ''/v'') (asc ''locked'')) = asc ''/v/locked''"
    by (simp add: example_os_def path_join_def py_startswith_def asc_def)
  have nonempty: "asc ''locked'' \<noteq> []"
    by (simp add: asc_def)
  show ?thesis
    unfolding example_start
    using example_locked_isdir nonempty
    by (simp add: browser_key_def KEY_DOWN_def KEY_UP_def is_enter_def py_index_def
        refresh_items_def path example_listing_refused)
qed

lemma example_app:
  "run app_init [((30, 80), KEY_UP), ((10, 80), 104)]
     = Inr \<lparr> menu_index = 7, selectable_indices = Some [1] \<rparr>"
  "run app_init [((30, 80), KEY_UP), ((10, 80), 104), ((10, 80), 10)] = Inl IndexError"
  by code_simp+

text \<open>
  Claim C1 at two inputs. In the file browser on \<open>/v\<close>, two presses of Down select the
  third entry, the directory \<open>locked\<close>; Enter goes into it, the listing is refused, and
  the handler replaces the items by two entries without resetting \<open>selected\<close>: the
  index is 2 with 2 items, and the next Enter raises \<open>IndexError\<close>. In the main menu,
  Up on a tall window moves the index to the eighth entry; after the window has shrunk to
  10 lines the draw pass finds one selectable entry, the key \<open>h\<close> leaves the index at 7,
  and Enter raises \<open>IndexError\<close>.
\<close>

theorem tui_selected_out_of_range:
  "map_sum id (\<lambda>(d, r). (fb_selected d, length (items d), browser_inv d, r))
     (browser_show example_os (browser_init example_os 20 (asc ''/v'')) [KEY_DOWN, KEY_DOWN, 10])
     = Inr (2, 2, False, None) \<and>
   browser_show example_os (browser_init example_os 20 (asc ''/v'')) [KEY_DOWN, KEY_DOWN, 10, 10]
     = Inl IndexError \<and>
   map_sum id (\<lambda>app. (menu_index app, selectable_indices app, menu_inv app))
     (run app_init [((30, 80), KEY_UP), ((10, 80), 104)]) = Inr (7, Some [1], False) \<and>
   run app_init [((30, 80), KEY_UP), ((10, 80), 104), ((10, 80), 10)] = Inl IndexError"
  unfolding example_browse example_browse_enter example_app
  by (simp add: browser_inv_def menu_inv_def)


subsection \<open>File sizes\<close>

lemma bitlen_0: "bitlen 0 = 0"
  by (subst bitlen.simps) simp

lemma bitlen_pos: "0 < n \<Longrightarrow> bitlen n = Suc (bitlen (n div 2))"
  by (subst bitlen.simps) simp

lemma bitlen_le: "n < 2 ^ k \<Longrightarrow> bitlen n \<le> k"
proof (induction k arbitrary: n)
  case 0
  then show ?case by (simp add: bitlen_0)
next
  case (Suc k)
  then have "n div 2 < 2 ^ k" by simp
  then have "bitlen (n div 2) \<le> k" by (rule Suc.IH)
  then show ?case by (cases "n = 0") (simp_all add: bitlen_0 bitlen_pos)
qed

lemma bitlen_pow: "bitlen (2 ^ k) = Suc k"
proof (induction k)
  case 0
  show ?case by (simp add: bitlen_pos bitlen_0)
next
  case (Suc k)
  have "bitlen (2 ^ Suc k) = Suc (bitlen (2 ^ Suc k div 2))"
    by (rule bitlen_pos) simp
  with Suc show ?case by simp
qed

lemma float_of_nat_exact: "n < 2 ^ 53 \<Longrightarrow> float_of_nat n = Inr n"
  using bitlen_le [of n 53] by (simp add: float_of_nat_def)

lemma float_of_nat_overflow:
  assumes "1024 \<le> k"
  shows "float_of_nat (2 ^ k) = Inl OverflowError"
proof -
  have k: "k = 52 + (k - 52)" using assms by simp
  have split: "(2::nat) ^ k = 2 ^ 52 * 2 ^ (k - 52)"
    by (subst k) (simp only: power_add)
  have q: "(2::nat) ^ k div 2 ^ (k - 52) = 2 ^ 52"
    unfolding split by simp
  have r: "(2::nat) ^ k mod 2 ^ (k - 52) = 0"
    unfolding split by simp
  have big: "(2::nat) ^ 1024 \<le> 2 ^ k"
    using assms by (intro power_increasing) auto
  have shift: "bitlen (2 ^ k) - 53 = k - 52" "\<not> bitlen (2 ^ k) \<le> 53"
    using assms by (simp_all add: bitlen_pow)
  have even52: "\<not> odd ((2::nat) ^ 52)" by simp
  have v: "(2::nat) ^ 52 * 2 ^ (k - 52) = 2 ^ k"
    using split by simp
  show ?thesis
    using big even52
    by (simp add: float_of_nat_def Let_def shift q r v del: power_numeral)
qed

lemma round_half_even_near:
  assumes "0 < d"
  shows "2 * \<bar>int a - int (round_half_even a d * d)\<bar> \<le> int d"
proof -
  define q where "q = a div d"
  define r where "r = a mod d"
  have a: "a = q * d + r" and r: "r < d"
    using assms by (simp_all add: q_def r_def)
  show ?thesis
  proof (cases "2 * r > d \<or> (2 * r = d \<and> odd q)")
    case True
    then have "round_half_even a d = q + 1"
      by (simp add: round_half_even_def q_def r_def Let_def)
    moreover have "d \<le> 2 * r" using True by auto
    ultimately show ?thesis using a r by (simp add: algebra_simps)
  next
    case False
    then have "round_half_even a d = q"
      by (auto simp: round_half_even_def q_def r_def Let_def)
    moreover have "2 * r \<le> d" using False by auto
    ultimately show ?thesis using a by (simp add: algebra_simps)
  qed
qed

lemma two_decimals_near:
  "\<exists>h. two_decimals v k = hundredths_text h \<and>
       2 * \<bar>int (100 * v) - int (h * 1024 ^ k)\<bar> \<le> int (1024 ^ k)"
  unfolding two_decimals_def
  using round_half_even_near [of "1024 ^ k" "100 * v"] by (intro exI conjI) (rule refl, simp)

lemma str_nat_digit: "n < 10 \<Longrightarrow> str_nat n = [48 + n]"
  by (subst str_nat.simps) simp

lemma format_filesize_small:
  assumes "0 \<le> n" and "n < 2 ^ 53"
  shows "format_filesize (Some n) =
     Inr (size_loop (nat n) 0 [asc ''B'', asc ''KB'', asc ''MB'', asc ''GB''])"
proof -
  have "nat n < 2 ^ 53" using assms by (simp add: nat_less_iff)
  then have "float_of_nat (nat n) = Inr (nat n)" by (rule float_of_nat_exact)
  with assms(1) show ?thesis by (simp add: format_filesize_def)
qed

text \<open>
  Claim C9, as amended. \<open>format_filesize\<close> returns the text for "unknown" on \<open>None\<close> and
  on a negative size. For a size \<open>n\<close> from 0 up to (not including) \<open>2 ^ 53\<close> it returns a
  number with two decimals, a space and a unit, where the unit is the first of B, KB, MB,
  GB, TB for which \<open>n\<close> divided by the unit's power of 1024 is below 1024 (TB when there
  is none), and the number, in hundredths, is within half a hundredth of that quotient.
\<close>

theorem format_filesize_units:
  "format_filesize None = Inr unknown_size \<and>
   (n < 0 \<longrightarrow> format_filesize (Some n) = Inr unknown_size) \<and>
   (0 \<le> n \<and> n < 2 ^ 53 \<longrightarrow>
      (\<exists>k h. k \<le> 4 \<and>
         format_filesize (Some n) = Inr (hundredths_text h @ [32] @ size_units ! k) \<and>
         (k = 4 \<or> nat n < 1024 ^ (k + 1)) \<and> (k = 0 \<or> 1024 ^ k \<le> nat n) \<and>
         2 * \<bar>int (100 * nat n) - int (h * 1024 ^ k)\<bar> \<le> int (1024 ^ k)))"
proof (intro conjI impI)
  show "format_filesize None = Inr unknown_size"
    by (simp add: format_filesize_def)
  show "format_filesize (Some n) = Inr unknown_size" if "n < 0"
    using that by (simp add: format_filesize_def)
  show "\<exists>k h. k \<le> 4 \<and>
         format_filesize (Some n) = Inr (hundredths_text h @ [32] @ size_units ! k) \<and>
         (k = 4 \<or> nat n < 1024 ^ (k + 1)) \<and> (k = 0 \<or> 1024 ^ k \<le> nat n) \<and>
         2 * \<bar>int (100 * nat n) - int (h * 1024 ^ k)\<bar> \<le> int (1024 ^ k)"
    if range: "0 \<le> n \<and> n < 2 ^ 53"
  proof -
    define v where "v = nat n"
    have res: "format_filesize (Some n) =
       Inr (size_loop v 0 [asc ''B'', asc ''KB'', asc ''MB'', asc ''GB''])"
      using range by (simp add: format_filesize_small v_def)
    have near: "\<exists>h. two_decimals v k = hundredths_text h \<and>
        2 * \<bar>int (100 * v) - int (h * 1024 ^ k)\<bar> \<le> int (1024 ^ k)" for k
      by (rule two_decimals_near)
    let ?loop = "size_loop v 0 [asc ''B'', asc ''KB'', asc ''MB'', asc ''GB'']"
    consider (b) "v < 1024" | (kb) "1024 \<le> v" "v < 1048576"
      | (mb) "1048576 \<le> v" "v < 1073741824"
      | (gb) "1073741824 \<le> v" "v < 1099511627776" | (tb) "1099511627776 \<le> v"
      by linarith
    then have "\<exists>k. k \<le> 4 \<and> ?loop = two_decimals v k @ [32] @ size_units ! k \<and>
        (k = 4 \<or> v < 1024 ^ (k + 1)) \<and> (k = 0 \<or> 1024 ^ k \<le> v)"
    proof cases
      case b
      then show ?thesis by (intro exI [of _ 0]) (simp add: size_units_def)
    next
      case kb
      then show ?thesis by (intro exI [of _ "Suc 0"]) (simp add: size_units_def)
    next
      case mb
      then show ?thesis by (intro exI [of _ "Suc (Suc 0)"]) (simp add: size_units_def)
    next
      case gb
      then show ?thesis by (intro exI [of _ "Suc (Suc (Suc 0))"]) (simp add: size_units_def)
    next
      case tb
      then show ?thesis by (intro exI [of _ "Suc (Suc (Suc (Suc 0)))"]) (simp add: size_units_def)
    qed
    then obtain k where k: "k \<le> 4" "?loop = two_decimals v k @ [32] @ size_units ! k"
      "k = 4 \<or> v < 1024 ^ (k + 1)" "k = 0 \<or> 1024 ^ k \<le> v"
      by blast
    obtain h where h: "two_decimals v k = hundredths_text h"
      "2 * \<bar>int (100 * v) - int (h * 1024 ^ k)\<bar> \<le> int (1024 ^ k)"
      using near [of k] by blast
    have "format_filesize (Some n) = Inr (hundredths_text h @ [32] @ size_units ! k)"
      using res k(2) h(1) by simp
    with k h(2) show ?thesis
      unfolding v_def by blast
  qed
qed

lemma example_size: "format_filesize (Some 1536) = Inr (asc ''1.50 KB'')"
proof -
  have "round_half_even (100 * 1536) (1024 ^ 1) = 150"
    by (simp add: round_half_even_def)
  then have "two_decimals 1536 1 = asc ''1.50''"
    by (simp add: two_decimals_def hundredths_text_def str_nat_digit asc_def)
  then show ?thesis
    by (simp add: format_filesize_small asc_def)
qed

text \<open>The theorem at the sizes \<open>-1\<close> and \<open>1536\<close>.\<close>

theorem format_filesize_units_witness:
  "(- 1 :: int) < 0 \<and> format_filesize (Some (- 1)) = Inr unknown_size \<and>
   (0 :: int) \<le> 1536 \<and> (1536 :: int) < 2 ^ 53 \<and>
   format_filesize (Some 1536) = Inr (asc ''1.50 KB'')"
  using format_filesize_units [of "- 1"] format_filesize_units [of 1536] example_size
  by simp

text \<open>
  The claim as written fails for a size that no double can hold: \<open>float(2 ** 1024)\<close>
  raises \<open>OverflowError\<close>, and so does \<open>format_filesize\<close>.
\<close>

theorem format_filesize_overflow_counterexample:
  "(0 :: int) \<le> 2 ^ 1024 \<and> format_filesize (Some (2 ^ 1024)) = Inl OverflowError"
proof -
  have eq: "nat (2 ^ 1024) = (2 :: nat) ^ 1024"
    by (simp add: nat_power_eq del: power_numeral)
  have "format_filesize (Some (2 ^ 1024)) =
      (case float_of_nat (2 ^ 1024) of Inl e \<Rightarrow> Inl e
       | Inr v \<Rightarrow> Inr (size_loop v 0 [asc ''B'', asc ''KB'', asc ''MB'', asc ''GB'']))"
    unfolding format_filesize_def by (simp add: eq del: power_numeral)
  also have "\<dots> = Inl OverflowError"
    by (simp only: float_of_nat_overflow [OF order_refl] sum.case)
  finally show ?thesis by (simp del: power_numeral)
qed

end
